theory Spec2Isabelle
  imports Complex_Main "HOL-Library.Monad_Syntax"
begin


section \<open>Shared type registry of the SmartLearn AI platform\<close>

text \<open>
  The file \<^verbatim>\<open>shared/types/python_types.py\<close> declares string enumerations and pydantic
  \<^verbatim>\<open>BaseModel\<close> classes. A class has no code of its own: constructing it runs the
  validation that pydantic derives from the field annotations. The embedding therefore has
  two layers. A field annotation is a value of the type \<open>ftype\<close>, a class is the
  \<open>TModel\<close> value listing its fields in declaration order, and \<open>validate_field\<close> is the
  validation pydantic performs for an annotation: required and defaulted fields, numeric
  bounds of \<^verbatim>\<open>Field(ge=..., le=...)\<close>, enumeration membership, nested models, lists and
  dictionaries, with the errors of all fields collected.
\<close>

subsection \<open>Values\<close>

text \<open>
  A \<^verbatim>\<open>datetime\<close> object: calendar fields and the offset of its time zone in minutes
  (\<open>None\<close> for a naive datetime).
\<close>

datatype datetime =
  Datetime (dt_year: int) (dt_month: int) (dt_day: int) (dt_hour: int) (dt_minute: int)
    (dt_second: int) (dt_microsecond: int) (dt_tzoffset: "int option")

text \<open>
  Input data: what a caller passes to a constructor, or what a decoded JSON document holds.
  A dictionary is an association list in insertion order. Python's \<^verbatim>\<open>int\<close> is unbounded
  (\<open>int\<close>); a \<^verbatim>\<open>float\<close> is modelled by the real number it denotes, so the values covered
  are the finite ones: \<^verbatim>\<open>inf\<close> and \<^verbatim>\<open>nan\<close> are not values of this type. Nor is an object
  of another Python class (an instance of one of the models passed where a dictionary is
  expected, a tuple, a set, a dictionary with keys that are not strings): the theorems
  speak of the inputs of this type only.
\<close>

datatype jvalue =
    VNone
  | VBool bool
  | VInt int
  | VFloat real
  | VStr string
  | VDatetime datetime
  | VList "jvalue list"
  | VDict "(string \<times> jvalue) list"

text \<open>
  Validated data: the value a field of an instance holds. \<open>PEnum e s\<close> is the member of
  enumeration \<open>e\<close> whose value is the string \<open>s\<close>; \<open>PModel c fs\<close> is an instance of class
  \<open>c\<close> with its fields in declaration order; \<open>PAny v\<close> is a field annotated \<^verbatim>\<open>Any\<close>, which
  keeps its input unchanged.
\<close>

datatype pvalue =
    PNone
  | PBool bool
  | PInt int
  | PFloat real
  | PStr string
  | PDatetime datetime
  | PEnum string string
  | PAny jvalue
  | PList "pvalue list"
  | PDict "(string \<times> pvalue) list"
  | PModel string "(string \<times> pvalue) list"

subsection \<open>Field annotations\<close>

text \<open>
  \<open>Required\<close> is a field declared without a default; \<open>Default p\<close> is \<^verbatim>\<open>name: T = p\<close>.
\<close>

datatype default = Required | Default pvalue

text \<open>
  \<open>TInt ge le\<close> and \<open>TFloat ge le\<close> carry the optional bounds of \<^verbatim>\<open>Field(ge=..., le=...)\<close>:
  a plain \<^verbatim>\<open>int\<close> is \<open>TInt None None\<close>. \<open>TEnum e lits\<close> is a \<^verbatim>\<open>class e(str, Enum)\<close> with the
  member values \<open>lits\<close>. \<open>TDict t\<close> is \<^verbatim>\<open>Dict[str, t]\<close>. \<open>TModel c fs\<close> is the class \<open>c\<close>
  with the fields \<open>fs\<close>: name, annotation, default.
\<close>

datatype ftype =
    TStr
  | TInt "int option" "int option"
  | TFloat "real option" "real option"
  | TBool
  | TDatetime
  | TAny
  | TEnum string "string list"
  | TOptional ftype
  | TList ftype
  | TDict ftype
  | TModel string "(string \<times> ftype \<times> default) list"

subsection \<open>Validation errors\<close>

text \<open>
  One entry of pydantic's error list: the location (field names and list indices from the
  outermost class inwards), the kind of violation with the violated bound or the permitted
  literals, and the offending input.
\<close>

datatype loc_item = Key string | Index nat

datatype err_kind =
    missing
  | string_type
  | int_type
  | int_parsing
  | int_from_float
  | float_type
  | float_parsing
  | bool_type
  | bool_parsing
  | datetime_type
  | datetime_parsing
  | enum "string list"
  | greater_than_equal jvalue
  | less_than_equal jvalue
  | list_type
  | dict_type
  | model_type

record verr =
  loc :: "loc_item list"
  kind :: err_kind
  input :: jvalue

definition err :: "err_kind \<Rightarrow> jvalue \<Rightarrow> verr list + pvalue" where
  "err k v = Inl [\<lparr>loc = [], kind = k, input = v\<rparr>]"

definition at_loc :: "loc_item \<Rightarrow> verr list \<Rightarrow> verr list" where
  "at_loc i es = map (\<lambda>e. e\<lparr>loc := i # loc e\<rparr>) es"

subsection \<open>Conversions of the lax mode\<close>

text \<open>
  None of the classes sets a configuration, so pydantic validates in its default (lax)
  mode: an input of the annotated type is taken as it is, and an input of another type
  goes through a conversion of the library (a numeric string for an \<^verbatim>\<open>int\<close>, an ISO 8601
  string for a \<^verbatim>\<open>datetime\<close>, ...). Which inputs of another type convert is decided by the
  library, not by this repository: the conversions are a parameter of the validation, one
  function per scalar annotation, which either converts or names the error. The
  theorems are stated for an arbitrary table \<open>P\<close>; closed examples use the table
  \<open>basic_lax\<close> defined below.
\<close>

record lax =
  str_lax :: "jvalue \<Rightarrow> err_kind + string"
  int_lax :: "jvalue \<Rightarrow> err_kind + int"
  float_lax :: "jvalue \<Rightarrow> err_kind + real"
  bool_lax :: "jvalue \<Rightarrow> err_kind + bool"
  datetime_lax :: "jvalue \<Rightarrow> err_kind + datetime"

subsection \<open>Validation of scalars\<close>

definition validate_str :: "lax \<Rightarrow> jvalue \<Rightarrow> err_kind + string" where
  "validate_str P v = (case v of VStr s \<Rightarrow> Inr s | _ \<Rightarrow> str_lax P v)"

definition validate_bool :: "lax \<Rightarrow> jvalue \<Rightarrow> err_kind + bool" where
  "validate_bool P v = (case v of VBool b \<Rightarrow> Inr b | _ \<Rightarrow> bool_lax P v)"

definition validate_datetime :: "lax \<Rightarrow> jvalue \<Rightarrow> err_kind + datetime" where
  "validate_datetime P v = (case v of VDatetime d \<Rightarrow> Inr d | _ \<Rightarrow> datetime_lax P v)"

text \<open>
  The bounds of \<^verbatim>\<open>Field(ge=a, le=b)\<close>: the upper bound is checked first, and a value
  outside a bound is an error, never moved into the range.
\<close>

definition check_le :: "('a::linorder \<Rightarrow> jvalue) \<Rightarrow> 'a option \<Rightarrow> 'a \<Rightarrow> err_kind option" where
  "check_le mk le x =
     (case le of None \<Rightarrow> None
      | Some b \<Rightarrow> if x \<le> b then None else Some (less_than_equal (mk b)))"

definition check_ge :: "('a::linorder \<Rightarrow> jvalue) \<Rightarrow> 'a option \<Rightarrow> 'a \<Rightarrow> err_kind option" where
  "check_ge mk ge x =
     (case ge of None \<Rightarrow> None
      | Some a \<Rightarrow> if a \<le> x then None else Some (greater_than_equal (mk a)))"

definition check_bounds ::
  "('a::linorder \<Rightarrow> jvalue) \<Rightarrow> 'a option \<Rightarrow> 'a option \<Rightarrow> 'a \<Rightarrow> err_kind + 'a" where
  "check_bounds mk ge le x =
     (case check_le mk le x of
        Some e \<Rightarrow> Inl e
      | None \<Rightarrow> (case check_ge mk ge x of Some e \<Rightarrow> Inl e | None \<Rightarrow> Inr x))"

definition validate_int :: "lax \<Rightarrow> int option \<Rightarrow> int option \<Rightarrow> jvalue \<Rightarrow> err_kind + int" where
  "validate_int P ge le v =
     (case (case v of VInt n \<Rightarrow> Inr n | _ \<Rightarrow> int_lax P v) of
        Inl e \<Rightarrow> Inl e
      | Inr n \<Rightarrow> check_bounds VInt ge le n)"

text \<open>
  A \<^verbatim>\<open>float\<close> field takes a float as it is. An \<^verbatim>\<open>int\<close> is an input of another type: the
  library converts it to the nearest double, or refuses it when it is beyond the range of
  a double, so this conversion belongs to the table too.
\<close>

definition validate_float :: "lax \<Rightarrow> real option \<Rightarrow> real option \<Rightarrow> jvalue \<Rightarrow> err_kind + real" where
  "validate_float P ge le v =
     (case (case v of VFloat r \<Rightarrow> Inr r | _ \<Rightarrow> float_lax P v) of
        Inl e \<Rightarrow> Inl e
      | Inr r \<Rightarrow> check_bounds VFloat ge le r)"

subsection \<open>Validation of annotations and classes\<close>

definition as_list :: "jvalue \<Rightarrow> jvalue list option" where
  "as_list v = (case v of VList vs \<Rightarrow> Some vs | _ \<Rightarrow> None)"

definition as_dict :: "jvalue \<Rightarrow> (string \<times> jvalue) list option" where
  "as_dict v = (case v of VDict kvs \<Rightarrow> Some kvs | _ \<Rightarrow> None)"

text \<open>
  The results of the parts of a container or of the fields of a class, each under its key:
  every error is reported, under the location of its part, and the value is built only
  when there is none.
\<close>

definition errors_of :: "('k \<Rightarrow> loc_item) \<Rightarrow> ('k \<times> (verr list + pvalue)) list \<Rightarrow> verr list" where
  "errors_of ix rs =
     concat (map (\<lambda>(k, r). case r of Inl es \<Rightarrow> at_loc (ix k) es | Inr p \<Rightarrow> []) rs)"

definition values_of :: "('k \<times> (verr list + pvalue)) list \<Rightarrow> ('k \<times> pvalue) list" where
  "values_of rs = concat (map (\<lambda>(k, r). case r of Inl es \<Rightarrow> [] | Inr p \<Rightarrow> [(k, p)]) rs)"

definition collect ::
  "('k \<Rightarrow> loc_item) \<Rightarrow> ('k \<times> (verr list + pvalue)) list \<Rightarrow> verr list + ('k \<times> pvalue) list" where
  "collect ix rs = (if errors_of ix rs = [] then Inr (values_of rs) else Inl (errors_of ix rs))"

text \<open>
  A class reads each declared field from the input dictionary by its name: a present field
  is validated against its annotation, an absent one takes its default or is reported
  \<open>missing\<close>. Keys of the input that name no field are ignored (pydantic's default
  \<^verbatim>\<open>extra='ignore'\<close>). A Python dictionary holds a key once; in an association list the
  first entry of a key counts, so \<open>(k, v) # kvs\<close> is the dictionary \<open>kvs\<close> with \<open>k\<close> set to
  \<open>v\<close>.
\<close>

fun validate_field :: "lax \<Rightarrow> ftype \<Rightarrow> jvalue \<Rightarrow> verr list + pvalue" where
  "validate_field P TStr v =
     (case validate_str P v of Inl k \<Rightarrow> err k v | Inr s \<Rightarrow> Inr (PStr s))"
| "validate_field P (TInt ge le) v =
     (case validate_int P ge le v of Inl k \<Rightarrow> err k v | Inr n \<Rightarrow> Inr (PInt n))"
| "validate_field P (TFloat ge le) v =
     (case validate_float P ge le v of Inl k \<Rightarrow> err k v | Inr r \<Rightarrow> Inr (PFloat r))"
| "validate_field P TBool v =
     (case validate_bool P v of Inl k \<Rightarrow> err k v | Inr b \<Rightarrow> Inr (PBool b))"
| "validate_field P TDatetime v =
     (case validate_datetime P v of Inl k \<Rightarrow> err k v | Inr d \<Rightarrow> Inr (PDatetime d))"
| "validate_field P TAny v = Inr (PAny v)"
| "validate_field P (TEnum e lits) v =
     (case v of
        VStr s \<Rightarrow> if s \<in> set lits then Inr (PEnum e s) else err (enum lits) v
      | _ \<Rightarrow> err (enum lits) v)"
| "validate_field P (TOptional t) v =
     (if v = VNone then Inr PNone else validate_field P t v)"
| "validate_field P (TList t) v =
     (case as_list v of
        None \<Rightarrow> err list_type v
      | Some vs \<Rightarrow>
          (case collect Index (enumerate 0 (map (validate_field P t) vs)) of
             Inl es \<Rightarrow> Inl es
           | Inr ps \<Rightarrow> Inr (PList (map snd ps))))"
| "validate_field P (TDict t) v =
     (case as_dict v of
        None \<Rightarrow> err dict_type v
      | Some kvs \<Rightarrow>
          (case collect Key (map (\<lambda>(k, x). (k, validate_field P t x)) kvs) of
             Inl es \<Rightarrow> Inl es
           | Inr ps \<Rightarrow> Inr (PDict ps)))"
| "validate_field P (TModel c fs) v =
     (case as_dict v of
        None \<Rightarrow> err model_type v
      | Some kvs \<Rightarrow>
          (case collect Key
                  (map (\<lambda>(f, t, d).
                          (f, case map_of kvs f of
                                None \<Rightarrow> (case d of Required \<Rightarrow> err missing v | Default p \<Rightarrow> Inr p)
                              | Some x \<Rightarrow> validate_field P t x))
                       fs) of
             Inl es \<Rightarrow> Inl es
           | Inr ps \<Rightarrow> Inr (PModel c ps)))"

text \<open>Calling a class with keyword arguments: \<^verbatim>\<open>C(**kwargs)\<close>.\<close>

definition construct :: "lax \<Rightarrow> ftype \<Rightarrow> (string \<times> jvalue) list \<Rightarrow> verr list + pvalue" where
  "construct P cls kwargs = validate_field P cls (VDict kwargs)"

subsection \<open>Serialization\<close>


subsection \<open>The enumerations and classes of \<^verbatim>\<open>python_types.py\<close>\<close>

text \<open>
  Each declaration of the source file, in its order. A default written as a constructor
  call, such as \<^verbatim>\<open>NotificationSettings()\<close>, is the instance built from the defaults of
  that class, named \<open>NotificationSettings_default\<close>.
\<close>

definition DifficultyLevel :: ftype where
  "DifficultyLevel = TEnum ''DifficultyLevel'' [''beginner'', ''intermediate'', ''advanced'']"


definition ExplanationStyle :: ftype where
  "ExplanationStyle = TEnum ''ExplanationStyle'' [''detailed'', ''concise'', ''example-heavy'']"

definition InteractionType :: ftype where
  "InteractionType = TEnum ''InteractionType'' [''concept_explanation'', ''code_analysis'', ''debugging_help'']"

definition DocumentType :: ftype where
  "DocumentType = TEnum ''DocumentType'' [''tutorial'', ''documentation'', ''example'', ''reference'']"

definition IssueType :: ftype where
  "IssueType = TEnum ''IssueType'' [''error'', ''warning'', ''suggestion'']"

definition IssueSeverity :: ftype where
  "IssueSeverity = TEnum ''IssueSeverity'' [''low'', ''medium'', ''high'']"

definition NotificationSettings :: ftype where
  "NotificationSettings = TModel ''NotificationSettings''
     [(''email_notifications'', TBool, Default (PBool True)),
      (''push_notifications'', TBool, Default (PBool True)),
      (''learning_reminders'', TBool, Default (PBool True)),
      (''progress_updates'', TBool, Default (PBool True))]"

definition NotificationSettings_default :: pvalue where
  "NotificationSettings_default = PModel ''NotificationSettings''
     [(''email_notifications'', PBool True),
      (''push_notifications'', PBool True),
      (''learning_reminders'', PBool True),
      (''progress_updates'', PBool True)]"

definition UserPreferences :: ftype where
  "UserPreferences = TModel ''UserPreferences''
     [(''explanation_style'', ExplanationStyle, Default (PEnum ''ExplanationStyle'' ''detailed'')),
      (''preferred_languages'', TList TStr, Default (PList [])),
      (''learning_goals'', TList TStr, Default (PList [])),
      (''notification_settings'', NotificationSettings, Default NotificationSettings_default)]"


definition SkillLevel :: ftype where
  "SkillLevel = TModel ''SkillLevel''
     [(''topic'', TStr, Required),
      (''level'', DifficultyLevel, Required),
      (''confidence'', TFloat (Some 0.0) (Some 1.0), Required),
      (''last_assessed'', TDatetime, Required)]"

definition ExpertiseLevel :: ftype where
  "ExpertiseLevel = TModel ''ExpertiseLevel''
     [(''overall_level'', DifficultyLevel, Required),
      (''domain_expertise'', TDict (TFloat None None), Default (PDict []))]"

definition UserFeedback :: ftype where
  "UserFeedback = TModel ''UserFeedback''
     [(''rating'', TInt (Some 1) (Some 5), Required),
      (''helpful'', TBool, Required),
      (''clarity_rating'', TInt (Some 1) (Some 5), Required),
      (''accuracy_rating'', TInt (Some 1) (Some 5), Required),
      (''comments'', TOptional TStr, Default PNone)]"

definition LearningInteraction :: ftype where
  "LearningInteraction = TModel ''LearningInteraction''
     [(''id'', TStr, Required),
      (''user_id'', TStr, Required),
      (''type'', InteractionType, Required),
      (''query'', TStr, Required),
      (''response'', TStr, Required),
      (''context_used'', TList TStr, Default (PList [])),
      (''feedback'', TOptional UserFeedback, Default PNone),
      (''timestamp'', TDatetime, Required),
      (''processing_time'', TFloat None None, Required)]"









definition Issue :: ftype where
  "Issue = TModel ''Issue''
     [(''type'', IssueType, Required),
      (''line_number'', TOptional (TInt None None), Default PNone),
      (''description'', TStr, Required),
      (''solution'', TStr, Required),
      (''severity'', IssueSeverity, Required)]"




definition DocumentMetadata :: ftype where
  "DocumentMetadata = TModel ''DocumentMetadata''
     [(''author'', TStr, Required),
      (''created_date'', TDatetime, Required),
      (''last_updated'', TDatetime, Required),
      (''version'', TStr, Required),
      (''language'', TOptional TStr, Default PNone),
      (''framework'', TOptional TStr, Default PNone)]"

definition KnowledgeDocument :: ftype where
  "KnowledgeDocument = TModel ''KnowledgeDocument''
     [(''id'', TStr, Required),
      (''title'', TStr, Required),
      (''content'', TStr, Required),
      (''document_type'', DocumentType, Required),
      (''topics'', TList TStr, Default (PList [])),
      (''difficulty_level'', DifficultyLevel, Required),
      (''source'', TStr, Required),
      (''embedding_vector'', TList (TFloat None None), Default (PList [])),
      (''metadata'', DocumentMetadata, Required)]"



definition ConversationMessage :: ftype where
  "ConversationMessage = TModel ''ConversationMessage''
     [(''role'', TStr, Required),
      (''content'', TStr, Required),
      (''timestamp'', TDatetime, Required),
      (''metadata'', TOptional (TDict TAny), Default PNone)]"





definition SearchResult :: ftype where
  "SearchResult = TModel ''SearchResult''
     [(''document_id'', TStr, Required),
      (''title'', TStr, Required),
      (''content_snippet'', TStr, Required),
      (''relevance_score'', TFloat (Some 0.0) (Some 1.0), Required),
      (''metadata'', DocumentMetadata, Required)]"

definition LearningResource :: ftype where
  "LearningResource = TModel ''LearningResource''
     [(''id'', TStr, Required),
      (''title'', TStr, Required),
      (''type'', TStr, Required),
      (''url'', TOptional TStr, Default PNone),
      (''content'', TOptional TStr, Default PNone),
      (''difficulty_level'', DifficultyLevel, Required),
      (''estimated_time'', TInt None None, Required)]"

definition Milestone :: ftype where
  "Milestone = TModel ''Milestone''
     [(''id'', TStr, Required),
      (''title'', TStr, Required),
      (''description'', TStr, Required),
      (''required_skills'', TList TStr, Default (PList [])),
      (''completion_criteria'', TList TStr, Default (PList [])),
      (''estimated_time'', TInt None None, Required)]"


definition SkillImprovement :: ftype where
  "SkillImprovement = TModel ''SkillImprovement''
     [(''topic'', TStr, Required),
      (''previous_level'', TFloat None None, Required),
      (''current_level'', TFloat None None, Required),
      (''improvement_date'', TDatetime, Required)]"

definition ProgressMetrics :: ftype where
  "ProgressMetrics = TModel ''ProgressMetrics''
     [(''topics_covered'', TList TStr, Default (PList [])),
      (''time_spent'', TInt None None, Required),
      (''concepts_learned'', TInt None None, Default (PInt 0)),
      (''questions_asked'', TInt None None, Default (PInt 0)),
      (''feedback_given'', TInt None None, Default (PInt 0)),
      (''skill_improvements'', TList SkillImprovement, Default (PList []))]"




definition PaginatedResponse :: ftype where
  "PaginatedResponse = TModel ''PaginatedResponse''
     [(''data'', TList TAny, Required),
      (''total'', TInt None None, Required),
      (''page'', TInt None None, Required),
      (''limit'', TInt None None, Required),
      (''has_next'', TBool, Required),
      (''has_prev'', TBool, Required)]"




definition GenerationContext :: ftype where
  "GenerationContext = TModel ''GenerationContext''
     [(''query'', TStr, Required),
      (''retrieved_documents'', TList SearchResult, Required),
      (''context_text'', TStr, Required),
      (''relevance_threshold'', TFloat None None, Default (PFloat 0.7))]"

definition SkillAssessment :: ftype where
  "SkillAssessment = TModel ''SkillAssessment''
     [(''user_id'', TStr, Required),
      (''assessed_skills'', TDict SkillLevel, Required),
      (''confidence_score'', TFloat (Some 0.0) (Some 1.0), Required),
      (''assessment_date'', TDatetime, Required),
      (''assessment_method'', TStr, Required)]"




subsection \<open>Reading the model\<close>

text \<open>
  The result of one declared field of a class on the keyword arguments \<open>kvs\<close>: the
  function that \<open>validate_field\<close> maps over the fields of a \<open>TModel\<close>.
\<close>

definition field_value ::
  "lax \<Rightarrow> (string \<times> jvalue) list \<Rightarrow> string \<times> ftype \<times> default \<Rightarrow> verr list + pvalue" where
  "field_value P kvs fd =
     (case map_of kvs (fst fd) of
        None \<Rightarrow> (case snd (snd fd) of Required \<Rightarrow> err missing (VDict kvs) | Default p \<Rightarrow> Inr p)
      | Some x \<Rightarrow> validate_field P (fst (snd fd)) x)"

text \<open>Attribute access on an instance: \<^verbatim>\<open>inst.f\<close>.\<close>

definition getattr :: "pvalue \<Rightarrow> string \<Rightarrow> pvalue option" where
  "getattr inst f = (case inst of PModel c ps \<Rightarrow> map_of ps f | _ \<Rightarrow> None)"

subsection \<open>A conversion table\<close>

text \<open>
  One conversion table, for the closed examples. It converts to an \<^verbatim>\<open>int\<close> a \<^verbatim>\<open>bool\<close>, a
  float without fractional part of magnitude at most \<^verbatim>\<open>2**53\<close> and a string of at most 18
  decimal digits with an optional minus sign; to a \<^verbatim>\<open>float\<close> an \<^verbatim>\<open>int\<close> of magnitude at
  most \<^verbatim>\<open>2**53\<close>; to a \<^verbatim>\<open>bool\<close> the integers 0 and 1; to a \<^verbatim>\<open>datetime\<close> a string
  \<^verbatim>\<open>YYYY-MM-DDTHH:MM:SS\<close> with an optional fraction \<^verbatim>\<open>.ffffff\<close> and an optional \<^verbatim>\<open>Z\<close> or
  \<^verbatim>\<open>+HH:MM\<close> offset. The table is a part of pydantic's lax mode: what it converts, pydantic
  converts to the same value. Pydantic converts further inputs (a larger number, a
  decimal string to a \<^verbatim>\<open>float\<close>, a Unix timestamp to a \<^verbatim>\<open>datetime\<close>, ...), which this
  table refuses, so a refusal of the table alone says nothing about the library. It is
  used only to evaluate examples.
\<close>

definition digit_of :: "char \<Rightarrow> int option" where
  "digit_of c =
     map_of [(CHR ''0'', 0), (CHR ''1'', 1), (CHR ''2'', 2), (CHR ''3'', 3), (CHR ''4'', 4),
             (CHR ''5'', 5), (CHR ''6'', 6), (CHR ''7'', 7), (CHR ''8'', 8), (CHR ''9'', 9)] c"

fun digits_as_int :: "int \<Rightarrow> string \<Rightarrow> int option" where
  "digits_as_int acc [] = Some acc"
| "digits_as_int acc (c # cs) =
     (case digit_of c of None \<Rightarrow> None | Some d \<Rightarrow> digits_as_int (10 * acc + d) cs)"

definition str_as_int :: "string \<Rightarrow> int option" where
  "str_as_int s =
     (case s of
        [] \<Rightarrow> None
      | c # cs \<Rightarrow>
          if c = CHR ''-''
          then (if cs = [] \<or> 18 < length cs then None
                else map_option uminus (digits_as_int 0 cs))
          else (if 18 < length s then None else digits_as_int 0 s))"

text \<open>
  The reader of ISO 8601 strings consumes its input from the left: two digits at a time,
  the separators, the fraction of a second when there is one, and the time zone, which
  ends the string.
\<close>

fun two_digits :: "string \<Rightarrow> (int \<times> string) option" where
  "two_digits (a # b # rest) =
     (case (digit_of a, digit_of b) of
        (Some x, Some y) \<Rightarrow> Some (10 * x + y, rest)
      | _ \<Rightarrow> None)"
| "two_digits s = None"

fun expect :: "char \<Rightarrow> string \<Rightarrow> string option" where
  "expect c (x # rest) = (if x = c then Some rest else None)"
| "expect c [] = None"

definition fraction :: "string \<Rightarrow> (int \<times> string) option" where
  "fraction s =
     (case s of
        [] \<Rightarrow> Some (0, [])
      | c # rest \<Rightarrow>
          if c = CHR ''.'' then
            do {
              (a, s1) \<leftarrow> two_digits rest;
              (b, s2) \<leftarrow> two_digits s1;
              (c, s3) \<leftarrow> two_digits s2;
              Some (10000 * a + 100 * b + c, s3)
            }
          else Some (0, s))"

definition tz_of :: "string \<Rightarrow> int option option" where
  "tz_of s =
     (case s of
        [] \<Rightarrow> Some None
      | c # rest \<Rightarrow>
          if c = CHR ''Z'' then (if rest = [] then Some (Some 0) else None)
          else if c = CHR ''+'' \<or> c = CHR ''-'' then
            do {
              (h, s1) \<leftarrow> two_digits rest;
              s2 \<leftarrow> expect CHR '':'' s1;
              (m, s3) \<leftarrow> two_digits s2;
              if s3 = [] \<and> h \<le> 23 \<and> m \<le> 59 \<and> (c = CHR ''+'' \<or> 0 < 60 * h + m)
              then Some (Some ((if c = CHR ''-'' then - 1 else 1) * (60 * h + m)))
              else None
            }
          else None)"

definition is_leap :: "int \<Rightarrow> bool" where
  "is_leap y = (y mod 4 = 0 \<and> (y mod 100 \<noteq> 0 \<or> y mod 400 = 0))"

definition days_in_month :: "int \<Rightarrow> int \<Rightarrow> int" where
  "days_in_month y m =
     (if m = 2 then (if is_leap y then 29 else 28)
      else if m = 4 \<or> m = 6 \<or> m = 9 \<or> m = 11 then 30 else 31)"

definition str_as_datetime :: "string \<Rightarrow> datetime option" where
  "str_as_datetime s0 =
     do {
       (yh, s1) \<leftarrow> two_digits s0;
       (yl, s2) \<leftarrow> two_digits s1;
       s3 \<leftarrow> expect CHR ''-'' s2;
       (mo, s4) \<leftarrow> two_digits s3;
       s5 \<leftarrow> expect CHR ''-'' s4;
       (d, s6) \<leftarrow> two_digits s5;
       s7 \<leftarrow> expect CHR ''T'' s6;
       (h, s8) \<leftarrow> two_digits s7;
       s9 \<leftarrow> expect CHR '':'' s8;
       (mi, s10) \<leftarrow> two_digits s9;
       s11 \<leftarrow> expect CHR '':'' s10;
       (sec, s12) \<leftarrow> two_digits s11;
       (us, s13) \<leftarrow> fraction s12;
       tz \<leftarrow> tz_of s13;
       if 1 \<le> 100 * yh + yl \<and> 1 \<le> mo \<and> mo \<le> 12 \<and> 1 \<le> d
          \<and> d \<le> days_in_month (100 * yh + yl) mo \<and> h \<le> 23 \<and> mi \<le> 59 \<and> sec \<le> 59
       then Some (Datetime (100 * yh + yl) mo d h mi sec us tz)
       else None
     }"

definition datetime_from_str :: "jvalue \<Rightarrow> err_kind + datetime" where
  "datetime_from_str v =
     (case v of
        VStr s \<Rightarrow> (case str_as_datetime s of Some d \<Rightarrow> Inr d | None \<Rightarrow> Inl datetime_parsing)
      | _ \<Rightarrow> Inl datetime_type)"

definition basic_lax :: lax where
  "basic_lax =
     \<lparr>str_lax = (\<lambda>v. Inl string_type),
      int_lax = (\<lambda>v. case v of
          VBool b \<Rightarrow> Inr (if b then 1 else 0)
        | VFloat r \<Rightarrow>
            if r = of_int \<lfloor>r\<rfloor> \<and> \<bar>r\<bar> \<le> 9007199254740992 then Inr \<lfloor>r\<rfloor>
            else Inl int_from_float
        | VStr s \<Rightarrow> (case str_as_int s of Some n \<Rightarrow> Inr n | None \<Rightarrow> Inl int_parsing)
        | _ \<Rightarrow> Inl int_type),
      float_lax = (\<lambda>v. case v of
          VInt n \<Rightarrow> if \<bar>n\<bar> \<le> 9007199254740992 then Inr (of_int n) else Inl float_type
        | _ \<Rightarrow> Inl float_type),
      bool_lax = (\<lambda>v. case v of
          VInt n \<Rightarrow> if n = 0 then Inr False else if n = 1 then Inr True else Inl bool_parsing
        | _ \<Rightarrow> Inl bool_type),
      datetime_lax = datetime_from_str\<rparr>"

subsection \<open>Well-typed values and well-formed classes\<close>





subsection \<open>Serialization to JSON values\<close>

text \<open>
  The JSON form of a \<^verbatim>\<open>datetime\<close>: \<^verbatim>\<open>YYYY-MM-DDTHH:MM:SS\<close>, followed by the six digits of
  the microseconds when they are not zero, and by \<^verbatim>\<open>Z\<close> or the offset \<^verbatim>\<open>+HH:MM\<close> of an
  aware datetime.
\<close>

definition digit_char :: "int \<Rightarrow> char" where
  "digit_char n = ''0123456789'' ! nat (n mod 10)"

definition pad2 :: "int \<Rightarrow> string" where
  "pad2 n = [digit_char (n div 10), digit_char n]"








section \<open>Properties of the validation\<close>

subsection \<open>Collected results\<close>

lemma errors_of_Nil [simp]: "errors_of ix [] = []"
  by (simp add: errors_of_def)

lemma errors_of_Cons:
  "errors_of ix ((k, r) # rs) = (case r of Inl es \<Rightarrow> at_loc (ix k) es | Inr p \<Rightarrow> []) @ errors_of ix rs"
  by (simp add: errors_of_def)

lemma values_of_Nil [simp]: "values_of [] = []"
  by (simp add: values_of_def)

lemma values_of_Cons:
  "values_of ((k, r) # rs) = (case r of Inl es \<Rightarrow> [] | Inr p \<Rightarrow> [(k, p)]) @ values_of rs"
  by (simp add: values_of_def)

lemma at_loc_Nil_iff [simp]: "at_loc i es = [] \<longleftrightarrow> es = []"
  by (simp add: at_loc_def)

lemma errors_of_Nil_iff:
  "errors_of ix rs = [] \<longleftrightarrow> (\<forall>(k, r) \<in> set rs. \<forall>es. r = Inl es \<longrightarrow> es = [])"
  by (induction rs) (auto simp add: errors_of_Cons split: sum.splits)

lemma values_of_all_Inr: "values_of (map (\<lambda>(k, p). (k, Inr p)) ps) = ps"
  by (induction ps) (auto simp add: values_of_Cons)

lemma all_Inr_values_of:
  "\<forall>(k, r) \<in> set rs. \<exists>p. r = Inr p \<Longrightarrow> map (\<lambda>(k, p). (k, Inr p)) (values_of rs) = rs"
  by (induction rs) (auto simp add: values_of_Cons)

lemma collect_Inr_iff:
  assumes "\<forall>(k, r) \<in> set rs. r \<noteq> Inl []"
  shows "collect ix rs = Inr ps \<longleftrightarrow> rs = map (\<lambda>(k, p). (k, Inr p)) ps"
proof
  assume c: "collect ix rs = Inr ps"
  then have e: "errors_of ix rs = []" and ps: "ps = values_of rs"
    by (auto simp add: collect_def split: if_splits)
  have "\<forall>(k, r) \<in> set rs. \<exists>p. r = Inr p"
  proof (clarify)
    fix k r assume kr: "(k, r) \<in> set rs"
    show "\<exists>p. r = Inr p"
    proof (cases r)
      case (Inl es)
      with e kr have "es = []" by (auto simp add: errors_of_Nil_iff)
      with assms kr Inl show ?thesis by auto
    qed simp
  qed
  then show "rs = map (\<lambda>(k, p). (k, Inr p)) ps"
    by (simp add: ps all_Inr_values_of)
next
  assume rs: "rs = map (\<lambda>(k, p). (k, Inr p)) ps"
  have "errors_of ix rs = []"
    by (auto simp add: errors_of_Nil_iff rs)
  then show "collect ix rs = Inr ps"
    by (simp add: collect_def rs values_of_all_Inr)
qed

lemma collect_Inl:
  assumes "(k, Inl es) \<in> set rs" and "es \<noteq> []"
  shows "\<exists>all. collect ix rs = Inl all \<and> set (at_loc (ix k) es) \<subseteq> set all"
proof -
  have sub: "set (at_loc (ix k) es) \<subseteq> set (errors_of ix rs)"
    using assms(1) by (induction rs) (auto simp: errors_of_Cons split: sum.splits)
  from assms(2) have "at_loc (ix k) es \<noteq> []" by simp
  with sub have "errors_of ix rs \<noteq> []" by (cases "errors_of ix rs") auto
  with sub show ?thesis by (simp add: collect_def)
qed

lemma collect_not_Inl_Nil: "collect ix rs = Inl es \<Longrightarrow> es \<noteq> []"
  by (auto simp add: collect_def split: if_splits)

lemma err_not_Inl_Nil [simp]: "err k v \<noteq> Inl []" "err k v \<noteq> Inr p"
  by (simp_all add: err_def)

lemma validate_field_not_Inl_Nil: "validate_field P t v \<noteq> Inl []"
proof (induction t arbitrary: v)
  case (TEnum e lits)
  then show ?case by (cases v) simp_all
next
  case (TList u)
  then show ?case
    by (auto split: option.splits sum.splits dest: collect_not_Inl_Nil)
next
  case (TDict u)
  then show ?case
    by (auto split: option.splits sum.splits dest: collect_not_Inl_Nil)
next
  case (TModel c fs)
  then show ?case
    by (auto split: option.splits sum.splits dest: collect_not_Inl_Nil)
qed (simp_all split: sum.splits)

lemma field_value_not_Inl_Nil: "field_value P kvs fd \<noteq> Inl []"
  by (simp add: field_value_def validate_field_not_Inl_Nil split: option.splits default.splits)


lemma construct_model:
  "construct P (TModel c fs) kvs =
     (case collect Key (map (\<lambda>fd. (fst fd, field_value P kvs fd)) fs) of
        Inl es \<Rightarrow> Inl es | Inr ps \<Rightarrow> Inr (PModel c ps))"
proof -
  have "(\<lambda>(f, t, d). (f, case map_of kvs f of
            None \<Rightarrow> (case d of Required \<Rightarrow> err missing (VDict kvs) | Default p \<Rightarrow> Inr p)
          | Some x \<Rightarrow> validate_field P t x)) = (\<lambda>fd. (fst fd, field_value P kvs fd))"
    by (auto simp add: field_value_def fun_eq_iff split: option.splits default.splits)
  then show ?thesis
    by (simp add: construct_def as_dict_def)
qed



lemma fields_all_Inr_iff:
  "map (\<lambda>fd. (fst fd, g fd)) fs = map (\<lambda>(k, p). (k, Inr p)) ps \<longleftrightarrow>
     map fst ps = map fst fs \<and> list_all2 (\<lambda>fd kp. g fd = Inr (snd kp)) fs ps"
proof (induction fs arbitrary: ps)
  case Nil
  then show ?case by auto
next
  case (Cons fd fs)
  show ?case
  proof (cases ps)
    case Nil
    then show ?thesis by simp
  next
    case (Cons kp qs)
    obtain k p where kp: "kp = (k, p)" by (cases kp)
    show ?thesis
      using Cons.IH [of qs] by (auto simp add: Cons kp)
  qed
qed


lemma construct_Inr_iff:
  "construct P (TModel c fs) kvs = Inr inst \<longleftrightarrow>
     (\<exists>ps. inst = PModel c ps \<and> map fst ps = map fst fs \<and>
        list_all2 (\<lambda>fd kp. field_value P kvs fd = Inr (snd kp)) fs ps)"
proof -
  let ?rs = "map (\<lambda>fd. (fst fd, field_value P kvs fd)) fs"
  have nn: "\<forall>(k, r) \<in> set ?rs. r \<noteq> Inl []"
    by (auto simp add: field_value_not_Inl_Nil)
  have "construct P (TModel c fs) kvs = Inr inst \<longleftrightarrow>
        (\<exists>ps. inst = PModel c ps \<and> collect Key ?rs = Inr ps)"
    by (cases "collect Key ?rs") (auto simp add: construct_model)
  also have "\<dots> \<longleftrightarrow> (\<exists>ps. inst = PModel c ps \<and> ?rs = map (\<lambda>(k, p). (k, Inr p)) ps)"
    by (simp only: collect_Inr_iff [OF nn])
  finally show ?thesis
    by (simp only: fields_all_Inr_iff)
qed

lemma construct_Inl:
  assumes "fd \<in> set fs" and "field_value P kvs fd = Inl es"
  shows "\<exists>all. construct P (TModel c fs) kvs = Inl all \<and> set (at_loc (Key (fst fd)) es) \<subseteq> set all"
proof -
  let ?rs = "map (\<lambda>fd. (fst fd, field_value P kvs fd)) fs"
  from assms(2) have ne: "es \<noteq> []"
    using field_value_not_Inl_Nil [of P kvs fd] by auto
  have "(\<lambda>fd. (fst fd, field_value P kvs fd)) fd \<in> (\<lambda>fd. (fst fd, field_value P kvs fd)) ` set fs"
    using assms(1) by (rule imageI)
  then have mem: "(fst fd, Inl es) \<in> set ?rs"
    by (simp add: assms(2))
  have "\<exists>all. collect Key ?rs = Inl all \<and> set (at_loc (Key (fst fd)) es) \<subseteq> set all"
    using mem ne by (rule collect_Inl)
  then obtain all where
    "collect Key ?rs = Inl all" "set (at_loc (Key (fst fd)) es) \<subseteq> set all"
    by (elim exE conjE)
  then show ?thesis by (simp add: construct_model)
qed

lemma construct_getattr:
  assumes "construct P (TModel c fs) kvs = Inr inst" and "distinct (map fst fs)" and "fd \<in> set fs"
  shows "\<exists>p. field_value P kvs fd = Inr p \<and> getattr inst (fst fd) = Some p"
proof -
  from assms(1) obtain ps where inst: "inst = PModel c ps" and names: "map fst ps = map fst fs"
    and all: "list_all2 (\<lambda>fd kp. field_value P kvs fd = Inr (snd kp)) fs ps"
    by (auto simp add: construct_Inr_iff)
  from assms(3) obtain i where i: "i < length fs" "fs ! i = fd"
    by (auto simp add: in_set_conv_nth)
  from all i have v: "field_value P kvs fd = Inr (snd (ps ! i))"
    by (auto simp add: list_all2_conv_all_nth)
  from names have len: "length ps = length fs" by (metis length_map)
  from names i len have k: "fst (ps ! i) = fst fd"
    by (metis nth_map)
  from assms(2) names have "distinct (map fst ps)" by simp
  moreover have "ps ! i \<in> set ps" using i len by simp
  ultimately have "map_of ps (fst (ps ! i)) = Some (snd (ps ! i))"
    by (metis map_of_eq_Some_iff prod.collapse)
  with v k show ?thesis by (simp add: inst getattr_def)
qed

lemmas scalar_defs = validate_str_def validate_bool_def validate_datetime_def validate_int_def
  validate_float_def check_bounds_def check_le_def check_ge_def

lemmas collect_defs = collect_def errors_of_def values_of_def at_loc_def err_def as_dict_def as_list_def

lemma fields_ok_iff:
  "(\<exists>ps. map fst ps = map fst fs \<and> list_all2 (\<lambda>fd kp. g fd = Inr (snd kp)) fs ps) \<longleftrightarrow>
     list_all (\<lambda>fd. \<exists>p. g fd = Inr p) fs"
proof (induction fs)
  case Nil
  then show ?case by simp
next
  case (Cons fd fs)
  show ?case
  proof
    assume "\<exists>ps. map fst ps = map fst (fd # fs) \<and> list_all2 (\<lambda>fd kp. g fd = Inr (snd kp)) (fd # fs) ps"
    then obtain ps where ps: "map fst ps = map fst (fd # fs)"
        "list_all2 (\<lambda>fd kp. g fd = Inr (snd kp)) (fd # fs) ps" by blast
    then obtain kp qs where q: "ps = kp # qs" by (cases ps) auto
    with ps have "g fd = Inr (snd kp)" "map fst qs = map fst fs"
        "list_all2 (\<lambda>fd kp. g fd = Inr (snd kp)) fs qs" by auto
    with Cons.IH show "list_all (\<lambda>fd. \<exists>p. g fd = Inr p) (fd # fs)" by auto
  next
    assume a: "list_all (\<lambda>fd. \<exists>p. g fd = Inr p) (fd # fs)"
    then obtain p where p: "g fd = Inr p" by auto
    from a Cons.IH obtain qs where "map fst qs = map fst fs"
        "list_all2 (\<lambda>fd kp. g fd = Inr (snd kp)) fs qs" by auto
    with p have "map fst ((fst fd, p) # qs) = map fst (fd # fs) \<and>
        list_all2 (\<lambda>fd kp. g fd = Inr (snd kp)) (fd # fs) ((fst fd, p) # qs)" by simp
    then show "\<exists>ps. map fst ps = map fst (fd # fs) \<and> list_all2 (\<lambda>fd kp. g fd = Inr (snd kp)) (fd # fs) ps"
      by (rule exI)
  qed
qed

lemma construct_ok_iff:
  "(\<exists>inst. construct P (TModel c fs) kvs = Inr inst) \<longleftrightarrow>
     list_all (\<lambda>fd. \<exists>p. field_value P kvs fd = Inr p) fs"
  by (simp add: construct_Inr_iff fields_ok_iff)

subsection \<open>Fields of a class\<close>

lemma validate_float_Inr:
  "validate_field P (TFloat (Some a) (Some b)) x = Inr p \<Longrightarrow> \<exists>r. p = PFloat r \<and> a \<le> r \<and> r \<le> b"
  by (auto simp add: scalar_defs err_def split: sum.splits if_splits)

lemma validate_int_Inr:
  "validate_field P (TInt (Some a) (Some b)) x = Inr p \<Longrightarrow> \<exists>n. p = PInt n \<and> a \<le> n \<and> n \<le> b"
  by (auto simp add: scalar_defs err_def split: sum.splits if_splits)

lemma required_field_getattr:
  assumes "cls = TModel c fs" and "construct P cls kvs = Inr inst" and "distinct (map fst fs)"
    and "(f, t, Required) \<in> set fs"
  shows "\<exists>x p. map_of kvs f = Some x \<and> validate_field P t x = Inr p \<and> getattr inst f = Some p"
proof -
  from assms(1,2) have "construct P (TModel c fs) kvs = Inr inst" by simp
  from construct_getattr [OF this assms(3,4)] obtain p where
    p: "field_value P kvs (f, t, Required) = Inr p" "getattr inst f = Some p"
    by auto
  then show ?thesis
    by (cases "map_of kvs f") (simp_all add: field_value_def)
qed

lemma present_field_Inl:
  assumes "cls = TModel c fs" and "(f, t, d) \<in> set fs" and "map_of kvs f = Some x"
    and "validate_field P t x = Inl [e]"
  shows "\<exists>es. construct P cls kvs = Inl es \<and> e\<lparr>loc := Key f # loc e\<rparr> \<in> set es"
proof -
  from assms(3,4) have "field_value P kvs (f, t, d) = Inl [e]"
    by (simp add: field_value_def)
  from construct_Inl [OF assms(2) this, of c] show ?thesis
    by (simp add: at_loc_def assms(1))
qed

lemma float_out_of_range:
  "\<not> (a \<le> r \<and> r \<le> b) \<Longrightarrow>
   validate_field P (TFloat (Some a) (Some b)) (VFloat r) =
     Inl [\<lparr>loc = [], kind = (if r \<le> b then greater_than_equal (VFloat a) else less_than_equal (VFloat b)),
           input = VFloat r\<rparr>]"
  by (auto simp add: scalar_defs err_def)

lemma int_out_of_range:
  "\<not> (a \<le> n \<and> n \<le> b) \<Longrightarrow>
   validate_field P (TInt (Some a) (Some b)) (VInt n) =
     Inl [\<lparr>loc = [], kind = (if n \<le> b then greater_than_equal (VInt a) else less_than_equal (VInt b)),
           input = VInt n\<rparr>]"
  by (auto simp add: scalar_defs err_def)

lemma unit_float_getattr:
  assumes "cls = TModel c fs" and "construct P cls kwargs = Inr inst" and "distinct (map fst fs)"
    and "(f, TFloat (Some 0) (Some 1), Required) \<in> set fs"
  shows "\<exists>r. getattr inst f = Some (PFloat r) \<and> 0 \<le> r \<and> r \<le> 1"
  using required_field_getattr [OF assms] validate_float_Inr by blast

lemma unit_float_reject:
  assumes "cls = TModel c fs" and "(f, TFloat (Some 0) (Some 1), d) \<in> set fs"
    and "map_of kwargs f = Some (VFloat r)" and "\<not> (0 \<le> r \<and> r \<le> 1)"
  shows "\<exists>es. construct P cls kwargs = Inl es \<and>
     \<lparr>loc = [Key f],
      kind = (if r \<le> 1 then greater_than_equal (VFloat 0) else less_than_equal (VFloat 1)),
      input = VFloat r\<rparr> \<in> set es"
  using present_field_Inl [OF assms(1,2,3) float_out_of_range [OF assms(4)]] by simp

lemma unit_int_getattr:
  assumes "cls = TModel c fs" and "construct P cls kwargs = Inr inst" and "distinct (map fst fs)"
    and "(f, TInt (Some a) (Some b), Required) \<in> set fs"
  shows "\<exists>n. getattr inst f = Some (PInt n) \<and> a \<le> n \<and> n \<le> b"
  using required_field_getattr [OF assms] validate_int_Inr by blast

lemma enum_field_reject:
  assumes "cls = TModel c fs" and "(f, TEnum e lits, d) \<in> set fs"
    and "map_of kwargs f = Some (VStr s)" and "s \<notin> set lits"
  shows "\<exists>es. construct P cls kwargs = Inl es \<and>
     \<lparr>loc = [Key f], kind = enum lits, input = VStr s\<rparr> \<in> set es"
proof -
  from assms(4) have "validate_field P (TEnum e lits) (VStr s) =
      Inl [\<lparr>loc = [], kind = enum lits, input = VStr s\<rparr>]"
    by (simp add: err_def)
  from present_field_Inl [OF assms(1,2,3) this] show ?thesis by simp
qed

lemma validate_enum_iff:
  "validate_field P (TEnum e lits) v = Inr p \<longleftrightarrow> (\<exists>s. v = VStr s \<and> s \<in> set lits \<and> p = PEnum e s)"
  by (cases v) (auto simp add: err_def)

subsection \<open>Validated values are well-typed, and well-typed values validate to themselves\<close>











text \<open>The reader of ISO 8601 strings reads back what the JSON form of a datetime writes.\<close>

lemma digit_of_digit_char: "digit_of (digit_char n) = Some (n mod 10)"
proof -
  have "n mod 10 \<in> {0, 1, 2, 3, 4, 5, 6, 7, 8, 9}"
    by (simp add: insert_commute) presburger
  then show ?thesis
    by (auto simp add: digit_of_def digit_char_def)
qed

lemma two_digit_value: "10 * (n div 10 mod 10) + n mod 10 = n mod (100::int)"
  using zmod_zmult2_eq [of 10 n 10] by simp

lemma two_digits_pad2 [simp]: "two_digits (pad2 n @ rest) = Some (n mod 100, rest)"
  by (simp add: pad2_def digit_of_digit_char two_digit_value)

lemma two_digits_pad2_end [simp]: "two_digits (pad2 n) = Some (n mod 100, [])"
  using two_digits_pad2 [of n "[]"] by (simp del: two_digits_pad2)
















section \<open>The claims of the specification\<close>

text \<open>
  Claim C7. Constructing \<^verbatim>\<open>UserFeedback\<close> from \<^verbatim>\<open>rating=6\<close>, \<^verbatim>\<open>helpful=True\<close>,
  \<^verbatim>\<open>clarity_rating=3\<close>, \<^verbatim>\<open>accuracy_rating=4\<close> fails, and the failure reports exactly one
  violation, located at the field \<^verbatim>\<open>rating\<close>: the upper bound 5, with the received value 6.
  The violations of all fields are collected: with \<^verbatim>\<open>clarity_rating=0\<close> in addition, the
  failure reports two violations, one per offending field, in declaration order.
\<close>

theorem userfeedback_rating_6_one_violation:
  "construct P UserFeedback
     [(''rating'', VInt 6), (''helpful'', VBool True), (''clarity_rating'', VInt 3),
      (''accuracy_rating'', VInt 4)]
   = Inl [\<lparr>loc = [Key ''rating''], kind = less_than_equal (VInt 5), input = VInt 6\<rparr>]
   \<and>
   construct P UserFeedback
     [(''rating'', VInt 6), (''helpful'', VBool True), (''clarity_rating'', VInt 0),
      (''accuracy_rating'', VInt 4)]
   = Inl [\<lparr>loc = [Key ''rating''], kind = less_than_equal (VInt 5), input = VInt 6\<rparr>,
          \<lparr>loc = [Key ''clarity_rating''], kind = greater_than_equal (VInt 1), input = VInt 0\<rparr>]"
  by (simp add: construct_def UserFeedback_def scalar_defs collect_defs)

text \<open>
  Claim C8. A \<^verbatim>\<open>PaginatedResponse\<close> with \<^verbatim>\<open>total=0\<close>, \<^verbatim>\<open>data=[]\<close>, \<^verbatim>\<open>has_next=False\<close>,
  \<^verbatim>\<open>has_prev=False\<close> is valid for all integers \<^verbatim>\<open>page\<close> and \<^verbatim>\<open>limit\<close>. More generally no
  relation between \<^verbatim>\<open>total\<close>, \<^verbatim>\<open>page\<close>, \<^verbatim>\<open>limit\<close>, \<^verbatim>\<open>has_next\<close> and \<^verbatim>\<open>has_prev\<close> is
  checked: every combination of integers and booleans is accepted and stored as given.
\<close>

theorem paginated_response_no_cross_field_check:
  "construct P PaginatedResponse
     [(''data'', VList []), (''total'', VInt 0), (''page'', VInt page), (''limit'', VInt limit),
      (''has_next'', VBool False), (''has_prev'', VBool False)]
   = Inr (PModel ''PaginatedResponse''
       [(''data'', PList []), (''total'', PInt 0), (''page'', PInt page), (''limit'', PInt limit),
        (''has_next'', PBool False), (''has_prev'', PBool False)])
   \<and>
   construct P PaginatedResponse
     [(''data'', VList []), (''total'', VInt tot), (''page'', VInt page), (''limit'', VInt limit),
      (''has_next'', VBool has_next), (''has_prev'', VBool has_prev)]
   = Inr (PModel ''PaginatedResponse''
       [(''data'', PList []), (''total'', PInt tot), (''page'', PInt page), (''limit'', PInt limit),
        (''has_next'', PBool has_next), (''has_prev'', PBool has_prev)])"
  by (simp add: construct_def PaginatedResponse_def scalar_defs collect_defs enumerate_eq_zip)

text \<open>
  Claim C9. \<^verbatim>\<open>GenerationContext.relevance_threshold\<close> is 0.7 when the argument is omitted,
  and it has no range constraint: every float \<open>r\<close>, also one below 0 or above 1, is
  accepted and stored. Whatever the other arguments are, the construction with threshold
  \<open>r\<close> succeeds exactly when the one with threshold 0.7 does.
\<close>

theorem generation_context_relevance_threshold:
  "construct P GenerationContext
     [(''query'', VStr q), (''retrieved_documents'', VList []), (''context_text'', VStr c)]
   = Inr (PModel ''GenerationContext''
       [(''query'', PStr q), (''retrieved_documents'', PList []), (''context_text'', PStr c),
        (''relevance_threshold'', PFloat 0.7)])
   \<and>
   construct P GenerationContext
     [(''query'', VStr q), (''retrieved_documents'', VList []), (''context_text'', VStr c),
      (''relevance_threshold'', VFloat r)]
   = Inr (PModel ''GenerationContext''
       [(''query'', PStr q), (''retrieved_documents'', PList []), (''context_text'', PStr c),
        (''relevance_threshold'', PFloat r)])
   \<and>
   ((\<exists>inst. construct P GenerationContext ((''relevance_threshold'', VFloat r) # kwargs) = Inr inst)
      = (\<exists>inst. construct P GenerationContext ((''relevance_threshold'', VFloat 0.7) # kwargs) = Inr inst))"
proof (intro conjI)
  show "construct P GenerationContext
     [(''query'', VStr q), (''retrieved_documents'', VList []), (''context_text'', VStr c)]
   = Inr (PModel ''GenerationContext''
       [(''query'', PStr q), (''retrieved_documents'', PList []), (''context_text'', PStr c),
        (''relevance_threshold'', PFloat 0.7)])"
    by (simp add: construct_def GenerationContext_def scalar_defs collect_defs enumerate_eq_zip)
  show "construct P GenerationContext
     [(''query'', VStr q), (''retrieved_documents'', VList []), (''context_text'', VStr c),
      (''relevance_threshold'', VFloat r)]
   = Inr (PModel ''GenerationContext''
       [(''query'', PStr q), (''retrieved_documents'', PList []), (''context_text'', PStr c),
        (''relevance_threshold'', PFloat r)])"
    by (simp add: construct_def GenerationContext_def scalar_defs collect_defs enumerate_eq_zip)
  show "(\<exists>inst. construct P GenerationContext ((''relevance_threshold'', VFloat r) # kwargs) = Inr inst)
      = (\<exists>inst. construct P GenerationContext ((''relevance_threshold'', VFloat 0.7) # kwargs) = Inr inst)"
    by (simp add: GenerationContext_def construct_ok_iff field_value_def scalar_defs
          split: option.splits)
qed

text \<open>
  Claim C10. \<^verbatim>\<open>ConversationMessage.role\<close> and \<^verbatim>\<open>LearningResource.type\<close> are plain \<^verbatim>\<open>str\<close>
  fields: a record with the field set to any string \<open>s\<close> is accepted and stores \<open>s\<close>; the
  values named in the comments are not enforced. Whatever the other arguments are, the
  construction with the string \<open>s\<close> succeeds exactly when the one with \<^verbatim>\<open>'user'\<close> (for the
  role), respectively \<^verbatim>\<open>'article'\<close> (for the type), does.
\<close>

theorem role_and_type_unconstrained:
  "construct P ConversationMessage
     [(''role'', VStr s), (''content'', VStr c), (''timestamp'', VDatetime d)]
   = Inr (PModel ''ConversationMessage''
       [(''role'', PStr s), (''content'', PStr c), (''timestamp'', PDatetime d),
        (''metadata'', PNone)])
   \<and>
   construct P LearningResource
     [(''id'', VStr i), (''title'', VStr t), (''type'', VStr s),
      (''difficulty_level'', VStr ''beginner''), (''estimated_time'', VInt n)]
   = Inr (PModel ''LearningResource''
       [(''id'', PStr i), (''title'', PStr t), (''type'', PStr s), (''url'', PNone),
        (''content'', PNone), (''difficulty_level'', PEnum ''DifficultyLevel'' ''beginner''),
        (''estimated_time'', PInt n)])
   \<and>
   ((\<exists>inst. construct P ConversationMessage ((''role'', VStr s) # kwargs) = Inr inst)
      = (\<exists>inst. construct P ConversationMessage ((''role'', VStr ''user'') # kwargs) = Inr inst))
   \<and>
   ((\<exists>inst. construct P LearningResource ((''type'', VStr s) # kwargs) = Inr inst)
      = (\<exists>inst. construct P LearningResource ((''type'', VStr ''article'') # kwargs) = Inr inst))"
proof (intro conjI)
  show "construct P ConversationMessage
     [(''role'', VStr s), (''content'', VStr c), (''timestamp'', VDatetime d)]
   = Inr (PModel ''ConversationMessage''
       [(''role'', PStr s), (''content'', PStr c), (''timestamp'', PDatetime d),
        (''metadata'', PNone)])"
    by (simp add: construct_def ConversationMessage_def scalar_defs collect_defs)
  show "construct P LearningResource
     [(''id'', VStr i), (''title'', VStr t), (''type'', VStr s),
      (''difficulty_level'', VStr ''beginner''), (''estimated_time'', VInt n)]
   = Inr (PModel ''LearningResource''
       [(''id'', PStr i), (''title'', PStr t), (''type'', PStr s), (''url'', PNone),
        (''content'', PNone), (''difficulty_level'', PEnum ''DifficultyLevel'' ''beginner''),
        (''estimated_time'', PInt n)])"
    by (simp add: construct_def LearningResource_def DifficultyLevel_def scalar_defs collect_defs)
  show "(\<exists>inst. construct P ConversationMessage ((''role'', VStr s) # kwargs) = Inr inst)
      = (\<exists>inst. construct P ConversationMessage ((''role'', VStr ''user'') # kwargs) = Inr inst)"
    by (simp add: ConversationMessage_def construct_ok_iff field_value_def scalar_defs
          split: option.splits)
  show "(\<exists>inst. construct P LearningResource ((''type'', VStr s) # kwargs) = Inr inst)
      = (\<exists>inst. construct P LearningResource ((''type'', VStr ''article'') # kwargs) = Inr inst)"
    by (simp add: LearningResource_def construct_ok_iff field_value_def scalar_defs
          split: option.splits)
qed

text \<open>
  Claim C1. The fields declared \<^verbatim>\<open>float = Field(ge=0.0, le=1.0)\<close>, namely
  \<^verbatim>\<open>SkillLevel.confidence\<close>, \<^verbatim>\<open>SearchResult.relevance_score\<close> and
  \<^verbatim>\<open>SkillAssessment.confidence_score\<close>: with the other fields valid, a float \<open>r\<close> is
  accepted exactly when \<open>0 \<le> r \<le> 1\<close> (so 0.0 and 1.0 are accepted, -0.0001 and 1.0001 are
  rejected), and a rejected value is reported at its field with the violated bound, not
  moved into the range. For arbitrary keyword arguments: a construction that succeeds
  holds a value within \<open>[0, 1]\<close> in the field, and a float outside \<open>[0, 1]\<close> makes the
  construction fail with a violation at the field.
\<close>

theorem score_fields_within_unit_interval:
  "construct P SkillLevel
     [(''topic'', VStr t), (''level'', VStr ''advanced''), (''confidence'', VFloat r),
      (''last_assessed'', VDatetime d)]
   = (if 0 \<le> r \<and> r \<le> 1
      then Inr (PModel ''SkillLevel''
        [(''topic'', PStr t), (''level'', PEnum ''DifficultyLevel'' ''advanced''),
         (''confidence'', PFloat r), (''last_assessed'', PDatetime d)])
      else Inl [\<lparr>loc = [Key ''confidence''],
                 kind = (if r \<le> 1 then greater_than_equal (VFloat 0) else less_than_equal (VFloat 1)),
                 input = VFloat r\<rparr>])
   \<and>
   construct P SearchResult
     [(''document_id'', VStr i), (''title'', VStr t), (''content_snippet'', VStr c),
      (''relevance_score'', VFloat r),
      (''metadata'', VDict [(''author'', VStr a), (''created_date'', VDatetime d),
         (''last_updated'', VDatetime u), (''version'', VStr v)])]
   = (if 0 \<le> r \<and> r \<le> 1
      then Inr (PModel ''SearchResult''
        [(''document_id'', PStr i), (''title'', PStr t), (''content_snippet'', PStr c),
         (''relevance_score'', PFloat r),
         (''metadata'', PModel ''DocumentMetadata''
            [(''author'', PStr a), (''created_date'', PDatetime d), (''last_updated'', PDatetime u),
             (''version'', PStr v), (''language'', PNone), (''framework'', PNone)])])
      else Inl [\<lparr>loc = [Key ''relevance_score''],
                 kind = (if r \<le> 1 then greater_than_equal (VFloat 0) else less_than_equal (VFloat 1)),
                 input = VFloat r\<rparr>])
   \<and>
   construct P SkillAssessment
     [(''user_id'', VStr i), (''assessed_skills'', VDict []), (''confidence_score'', VFloat r),
      (''assessment_date'', VDatetime d), (''assessment_method'', VStr m)]
   = (if 0 \<le> r \<and> r \<le> 1
      then Inr (PModel ''SkillAssessment''
        [(''user_id'', PStr i), (''assessed_skills'', PDict []), (''confidence_score'', PFloat r),
         (''assessment_date'', PDatetime d), (''assessment_method'', PStr m)])
      else Inl [\<lparr>loc = [Key ''confidence_score''],
                 kind = (if r \<le> 1 then greater_than_equal (VFloat 0) else less_than_equal (VFloat 1)),
                 input = VFloat r\<rparr>])
   \<and>
   (construct P SkillLevel kwargs = Inr inst \<longrightarrow>
      (\<exists>x. getattr inst ''confidence'' = Some (PFloat x) \<and> 0 \<le> x \<and> x \<le> 1))
   \<and>
   (construct P SearchResult kwargs = Inr inst \<longrightarrow>
      (\<exists>x. getattr inst ''relevance_score'' = Some (PFloat x) \<and> 0 \<le> x \<and> x \<le> 1))
   \<and>
   (construct P SkillAssessment kwargs = Inr inst \<longrightarrow>
      (\<exists>x. getattr inst ''confidence_score'' = Some (PFloat x) \<and> 0 \<le> x \<and> x \<le> 1))
   \<and>
   (map_of kwargs ''confidence'' = Some (VFloat r) \<and> \<not> (0 \<le> r \<and> r \<le> 1) \<longrightarrow>
      (\<exists>es. construct P SkillLevel kwargs = Inl es \<and>
         \<lparr>loc = [Key ''confidence''],
          kind = (if r \<le> 1 then greater_than_equal (VFloat 0) else less_than_equal (VFloat 1)),
          input = VFloat r\<rparr> \<in> set es))
   \<and>
   (map_of kwargs ''relevance_score'' = Some (VFloat r) \<and> \<not> (0 \<le> r \<and> r \<le> 1) \<longrightarrow>
      (\<exists>es. construct P SearchResult kwargs = Inl es \<and>
         \<lparr>loc = [Key ''relevance_score''],
          kind = (if r \<le> 1 then greater_than_equal (VFloat 0) else less_than_equal (VFloat 1)),
          input = VFloat r\<rparr> \<in> set es))
   \<and>
   (map_of kwargs ''confidence_score'' = Some (VFloat r) \<and> \<not> (0 \<le> r \<and> r \<le> 1) \<longrightarrow>
      (\<exists>es. construct P SkillAssessment kwargs = Inl es \<and>
         \<lparr>loc = [Key ''confidence_score''],
          kind = (if r \<le> 1 then greater_than_equal (VFloat 0) else less_than_equal (VFloat 1)),
          input = VFloat r\<rparr> \<in> set es))"
proof -
  have a1: "construct P SkillLevel
     [(''topic'', VStr t), (''level'', VStr ''advanced''), (''confidence'', VFloat r),
      (''last_assessed'', VDatetime d)]
   = (if 0 \<le> r \<and> r \<le> 1
      then Inr (PModel ''SkillLevel''
        [(''topic'', PStr t), (''level'', PEnum ''DifficultyLevel'' ''advanced''),
         (''confidence'', PFloat r), (''last_assessed'', PDatetime d)])
      else Inl [\<lparr>loc = [Key ''confidence''],
                 kind = (if r \<le> 1 then greater_than_equal (VFloat 0) else less_than_equal (VFloat 1)),
                 input = VFloat r\<rparr>])"
    by (simp add: construct_def SkillLevel_def DifficultyLevel_def scalar_defs collect_defs)
  have a2: "construct P SearchResult
     [(''document_id'', VStr i), (''title'', VStr t), (''content_snippet'', VStr c),
      (''relevance_score'', VFloat r),
      (''metadata'', VDict [(''author'', VStr a), (''created_date'', VDatetime d),
         (''last_updated'', VDatetime u), (''version'', VStr v)])]
   = (if 0 \<le> r \<and> r \<le> 1
      then Inr (PModel ''SearchResult''
        [(''document_id'', PStr i), (''title'', PStr t), (''content_snippet'', PStr c),
         (''relevance_score'', PFloat r),
         (''metadata'', PModel ''DocumentMetadata''
            [(''author'', PStr a), (''created_date'', PDatetime d), (''last_updated'', PDatetime u),
             (''version'', PStr v), (''language'', PNone), (''framework'', PNone)])])
      else Inl [\<lparr>loc = [Key ''relevance_score''],
                 kind = (if r \<le> 1 then greater_than_equal (VFloat 0) else less_than_equal (VFloat 1)),
                 input = VFloat r\<rparr>])"
    by (simp add: construct_def SearchResult_def DocumentMetadata_def scalar_defs collect_defs)
  have a3: "construct P SkillAssessment
     [(''user_id'', VStr i), (''assessed_skills'', VDict []), (''confidence_score'', VFloat r),
      (''assessment_date'', VDatetime d), (''assessment_method'', VStr m)]
   = (if 0 \<le> r \<and> r \<le> 1
      then Inr (PModel ''SkillAssessment''
        [(''user_id'', PStr i), (''assessed_skills'', PDict []), (''confidence_score'', PFloat r),
         (''assessment_date'', PDatetime d), (''assessment_method'', PStr m)])
      else Inl [\<lparr>loc = [Key ''confidence_score''],
                 kind = (if r \<le> 1 then greater_than_equal (VFloat 0) else less_than_equal (VFloat 1)),
                 input = VFloat r\<rparr>])"
    by (simp add: construct_def SkillAssessment_def scalar_defs collect_defs)
  have b1: "construct P SkillLevel kwargs = Inr inst \<longrightarrow>
      (\<exists>x. getattr inst ''confidence'' = Some (PFloat x) \<and> 0 \<le> x \<and> x \<le> 1)"
    by (rule impI, rule unit_float_getattr [OF SkillLevel_def]) simp_all
  have b2: "construct P SearchResult kwargs = Inr inst \<longrightarrow>
      (\<exists>x. getattr inst ''relevance_score'' = Some (PFloat x) \<and> 0 \<le> x \<and> x \<le> 1)"
    by (rule impI, rule unit_float_getattr [OF SearchResult_def]) simp_all
  have b3: "construct P SkillAssessment kwargs = Inr inst \<longrightarrow>
      (\<exists>x. getattr inst ''confidence_score'' = Some (PFloat x) \<and> 0 \<le> x \<and> x \<le> 1)"
    by (rule impI, rule unit_float_getattr [OF SkillAssessment_def]) simp_all
  have c1: "map_of kwargs ''confidence'' = Some (VFloat r) \<and> \<not> (0 \<le> r \<and> r \<le> 1) \<longrightarrow>
      (\<exists>es. construct P SkillLevel kwargs = Inl es \<and>
         \<lparr>loc = [Key ''confidence''],
          kind = (if r \<le> 1 then greater_than_equal (VFloat 0) else less_than_equal (VFloat 1)),
          input = VFloat r\<rparr> \<in> set es)"
  proof (intro impI, elim conjE)
    assume m: "map_of kwargs ''confidence'' = Some (VFloat r)" and o: "\<not> (0 \<le> r \<and> r \<le> 1)"
    show "\<exists>es. construct P SkillLevel kwargs = Inl es \<and>
         \<lparr>loc = [Key ''confidence''],
          kind = (if r \<le> 1 then greater_than_equal (VFloat 0) else less_than_equal (VFloat 1)),
          input = VFloat r\<rparr> \<in> set es"
      by (rule unit_float_reject [OF SkillLevel_def _ m o]) simp
  qed
  have c2: "map_of kwargs ''relevance_score'' = Some (VFloat r) \<and> \<not> (0 \<le> r \<and> r \<le> 1) \<longrightarrow>
      (\<exists>es. construct P SearchResult kwargs = Inl es \<and>
         \<lparr>loc = [Key ''relevance_score''],
          kind = (if r \<le> 1 then greater_than_equal (VFloat 0) else less_than_equal (VFloat 1)),
          input = VFloat r\<rparr> \<in> set es)"
  proof (intro impI, elim conjE)
    assume m: "map_of kwargs ''relevance_score'' = Some (VFloat r)" and o: "\<not> (0 \<le> r \<and> r \<le> 1)"
    show "\<exists>es. construct P SearchResult kwargs = Inl es \<and>
         \<lparr>loc = [Key ''relevance_score''],
          kind = (if r \<le> 1 then greater_than_equal (VFloat 0) else less_than_equal (VFloat 1)),
          input = VFloat r\<rparr> \<in> set es"
      by (rule unit_float_reject [OF SearchResult_def _ m o]) simp
  qed
  have c3: "map_of kwargs ''confidence_score'' = Some (VFloat r) \<and> \<not> (0 \<le> r \<and> r \<le> 1) \<longrightarrow>
      (\<exists>es. construct P SkillAssessment kwargs = Inl es \<and>
         \<lparr>loc = [Key ''confidence_score''],
          kind = (if r \<le> 1 then greater_than_equal (VFloat 0) else less_than_equal (VFloat 1)),
          input = VFloat r\<rparr> \<in> set es)"
  proof (intro impI, elim conjE)
    assume m: "map_of kwargs ''confidence_score'' = Some (VFloat r)" and o: "\<not> (0 \<le> r \<and> r \<le> 1)"
    show "\<exists>es. construct P SkillAssessment kwargs = Inl es \<and>
         \<lparr>loc = [Key ''confidence_score''],
          kind = (if r \<le> 1 then greater_than_equal (VFloat 0) else less_than_equal (VFloat 1)),
          input = VFloat r\<rparr> \<in> set es"
      by (rule unit_float_reject [OF SkillAssessment_def _ m o]) simp
  qed
  show ?thesis
    by (intro conjI; fact)
qed

theorem score_fields_within_unit_interval_witness:
  "construct basic_lax SkillLevel
     [(''topic'', VStr ''recursion''), (''level'', VStr ''advanced''), (''confidence'', VFloat 0),
      (''last_assessed'', VDatetime (Datetime 2024 1 1 0 0 0 0 (Some 0)))]
   = Inr (PModel ''SkillLevel''
        [(''topic'', PStr ''recursion''), (''level'', PEnum ''DifficultyLevel'' ''advanced''),
         (''confidence'', PFloat 0), (''last_assessed'', PDatetime (Datetime 2024 1 1 0 0 0 0 (Some 0)))])
   \<and>
   construct basic_lax SkillLevel
     [(''topic'', VStr ''recursion''), (''level'', VStr ''advanced''), (''confidence'', VFloat 1),
      (''last_assessed'', VDatetime (Datetime 2024 1 1 0 0 0 0 (Some 0)))]
   = Inr (PModel ''SkillLevel''
        [(''topic'', PStr ''recursion''), (''level'', PEnum ''DifficultyLevel'' ''advanced''),
         (''confidence'', PFloat 1), (''last_assessed'', PDatetime (Datetime 2024 1 1 0 0 0 0 (Some 0)))])
   \<and>
   construct basic_lax SkillLevel
     [(''topic'', VStr ''recursion''), (''level'', VStr ''advanced''), (''confidence'', VFloat (- 0.0001)),
      (''last_assessed'', VDatetime (Datetime 2024 1 1 0 0 0 0 (Some 0)))]
   = Inl [\<lparr>loc = [Key ''confidence''], kind = greater_than_equal (VFloat 0),
           input = VFloat (- 0.0001)\<rparr>]
   \<and>
   construct basic_lax SkillLevel
     [(''topic'', VStr ''recursion''), (''level'', VStr ''advanced''), (''confidence'', VFloat 1.0001),
      (''last_assessed'', VDatetime (Datetime 2024 1 1 0 0 0 0 (Some 0)))]
   = Inl [\<lparr>loc = [Key ''confidence''], kind = less_than_equal (VFloat 1),
           input = VFloat 1.0001\<rparr>]
   \<and>
   construct basic_lax SearchResult
     [(''document_id'', VStr ''doc1''), (''title'', VStr ''recursion''),
      (''content_snippet'', VStr ''text''), (''relevance_score'', VFloat 1),
      (''metadata'', VDict [(''author'', VStr ''ann''), (''created_date'', VDatetime (Datetime 2024 1 1 0 0 0 0 (Some 0))),
         (''last_updated'', VDatetime (Datetime 2024 1 1 0 0 0 0 (Some 0))), (''version'', VStr ''1'')])]
   = Inr (PModel ''SearchResult''
        [(''document_id'', PStr ''doc1''), (''title'', PStr ''recursion''),
         (''content_snippet'', PStr ''text''), (''relevance_score'', PFloat 1),
         (''metadata'', PModel ''DocumentMetadata''
            [(''author'', PStr ''ann''), (''created_date'', PDatetime (Datetime 2024 1 1 0 0 0 0 (Some 0))),
             (''last_updated'', PDatetime (Datetime 2024 1 1 0 0 0 0 (Some 0))), (''version'', PStr ''1''),
             (''language'', PNone), (''framework'', PNone)])])
   \<and>
   construct basic_lax SkillAssessment
     [(''user_id'', VStr ''doc1''), (''assessed_skills'', VDict []), (''confidence_score'', VFloat 0),
      (''assessment_date'', VDatetime (Datetime 2024 1 1 0 0 0 0 (Some 0))), (''assessment_method'', VStr ''quiz'')]
   = Inr (PModel ''SkillAssessment''
        [(''user_id'', PStr ''doc1''), (''assessed_skills'', PDict []), (''confidence_score'', PFloat 0),
         (''assessment_date'', PDatetime (Datetime 2024 1 1 0 0 0 0 (Some 0))), (''assessment_method'', PStr ''quiz'')])
   \<and>
   (\<exists>x. getattr (PModel ''SkillLevel''
        [(''topic'', PStr ''recursion''), (''level'', PEnum ''DifficultyLevel'' ''advanced''),
         (''confidence'', PFloat 1), (''last_assessed'', PDatetime (Datetime 2024 1 1 0 0 0 0 (Some 0)))]) ''confidence''
      = Some (PFloat x) \<and> 0 \<le> x \<and> x \<le> 1)
   \<and>
   (\<exists>x. getattr (PModel ''SearchResult''
        [(''document_id'', PStr ''doc1''), (''title'', PStr ''recursion''),
         (''content_snippet'', PStr ''text''), (''relevance_score'', PFloat 1),
         (''metadata'', PModel ''DocumentMetadata''
            [(''author'', PStr ''ann''), (''created_date'', PDatetime (Datetime 2024 1 1 0 0 0 0 (Some 0))),
             (''last_updated'', PDatetime (Datetime 2024 1 1 0 0 0 0 (Some 0))), (''version'', PStr ''1''),
             (''language'', PNone), (''framework'', PNone)])]) ''relevance_score''
      = Some (PFloat x) \<and> 0 \<le> x \<and> x \<le> 1)
   \<and>
   (\<exists>x. getattr (PModel ''SkillAssessment''
        [(''user_id'', PStr ''doc1''), (''assessed_skills'', PDict []), (''confidence_score'', PFloat 0),
         (''assessment_date'', PDatetime (Datetime 2024 1 1 0 0 0 0 (Some 0))), (''assessment_method'', PStr ''quiz'')]) ''confidence_score''
      = Some (PFloat x) \<and> 0 \<le> x \<and> x \<le> 1)
   \<and>
   (\<exists>es. construct basic_lax SkillLevel [(''confidence'', VFloat 1.0001)] = Inl es \<and>
      \<lparr>loc = [Key ''confidence''], kind = less_than_equal (VFloat 1), input = VFloat 1.0001\<rparr>
        \<in> set es)
   \<and>
   (\<exists>es. construct basic_lax SearchResult [(''relevance_score'', VFloat (- 0.0001))] = Inl es \<and>
      \<lparr>loc = [Key ''relevance_score''], kind = greater_than_equal (VFloat 0), input = VFloat (- 0.0001)\<rparr>
        \<in> set es)
   \<and>
   (\<exists>es. construct basic_lax SkillAssessment [(''confidence_score'', VFloat 1.0001)] = Inl es \<and>
      \<lparr>loc = [Key ''confidence_score''], kind = less_than_equal (VFloat 1), input = VFloat 1.0001\<rparr>
        \<in> set es)"
proof -
  let ?d = "Datetime 2024 1 1 0 0 0 0 (Some 0)"
  note T = score_fields_within_unit_interval
    [where P = basic_lax and t = "''recursion''" and d = ?d and i = "''doc1''"
       and c = "''text''" and a = "''ann''" and u = ?d and v = "''1''" and m = "''quiz''"]
  have k0: "construct basic_lax SkillLevel
     [(''topic'', VStr ''recursion''), (''level'', VStr ''advanced''), (''confidence'', VFloat 0),
      (''last_assessed'', VDatetime (Datetime 2024 1 1 0 0 0 0 (Some 0)))]
   = Inr (PModel ''SkillLevel''
        [(''topic'', PStr ''recursion''), (''level'', PEnum ''DifficultyLevel'' ''advanced''),
         (''confidence'', PFloat 0), (''last_assessed'', PDatetime (Datetime 2024 1 1 0 0 0 0 (Some 0)))])"
    using T [where r = 0, THEN conjunct1] by simp
  have k1: "construct basic_lax SkillLevel
     [(''topic'', VStr ''recursion''), (''level'', VStr ''advanced''), (''confidence'', VFloat 1),
      (''last_assessed'', VDatetime (Datetime 2024 1 1 0 0 0 0 (Some 0)))]
   = Inr (PModel ''SkillLevel''
        [(''topic'', PStr ''recursion''), (''level'', PEnum ''DifficultyLevel'' ''advanced''),
         (''confidence'', PFloat 1), (''last_assessed'', PDatetime (Datetime 2024 1 1 0 0 0 0 (Some 0)))])"
    using T [where r = 1, THEN conjunct1] by simp
  have k2: "construct basic_lax SkillLevel
     [(''topic'', VStr ''recursion''), (''level'', VStr ''advanced''), (''confidence'', VFloat (- 0.0001)),
      (''last_assessed'', VDatetime (Datetime 2024 1 1 0 0 0 0 (Some 0)))]
   = Inl [\<lparr>loc = [Key ''confidence''], kind = greater_than_equal (VFloat 0),
           input = VFloat (- 0.0001)\<rparr>]"
    using T [where r = "- 0.0001", THEN conjunct1] by simp
  have k3: "construct basic_lax SkillLevel
     [(''topic'', VStr ''recursion''), (''level'', VStr ''advanced''), (''confidence'', VFloat 1.0001),
      (''last_assessed'', VDatetime (Datetime 2024 1 1 0 0 0 0 (Some 0)))]
   = Inl [\<lparr>loc = [Key ''confidence''], kind = less_than_equal (VFloat 1),
           input = VFloat 1.0001\<rparr>]"
    using T [where r = "1.0001", THEN conjunct1] by simp
  have k4: "construct basic_lax SearchResult
     [(''document_id'', VStr ''doc1''), (''title'', VStr ''recursion''),
      (''content_snippet'', VStr ''text''), (''relevance_score'', VFloat 1),
      (''metadata'', VDict [(''author'', VStr ''ann''), (''created_date'', VDatetime (Datetime 2024 1 1 0 0 0 0 (Some 0))),
         (''last_updated'', VDatetime (Datetime 2024 1 1 0 0 0 0 (Some 0))), (''version'', VStr ''1'')])]
   = Inr (PModel ''SearchResult''
        [(''document_id'', PStr ''doc1''), (''title'', PStr ''recursion''),
         (''content_snippet'', PStr ''text''), (''relevance_score'', PFloat 1),
         (''metadata'', PModel ''DocumentMetadata''
            [(''author'', PStr ''ann''), (''created_date'', PDatetime (Datetime 2024 1 1 0 0 0 0 (Some 0))),
             (''last_updated'', PDatetime (Datetime 2024 1 1 0 0 0 0 (Some 0))), (''version'', PStr ''1''),
             (''language'', PNone), (''framework'', PNone)])])"
    using T [where r = 1, THEN conjunct2, THEN conjunct1] by simp
  have k5: "construct basic_lax SkillAssessment
     [(''user_id'', VStr ''doc1''), (''assessed_skills'', VDict []), (''confidence_score'', VFloat 0),
      (''assessment_date'', VDatetime (Datetime 2024 1 1 0 0 0 0 (Some 0))), (''assessment_method'', VStr ''quiz'')]
   = Inr (PModel ''SkillAssessment''
        [(''user_id'', PStr ''doc1''), (''assessed_skills'', PDict []), (''confidence_score'', PFloat 0),
         (''assessment_date'', PDatetime (Datetime 2024 1 1 0 0 0 0 (Some 0))), (''assessment_method'', PStr ''quiz'')])"
    using T [where r = 0, THEN conjunct2, THEN conjunct2, THEN conjunct1] by simp
  have g1: "\<exists>x. getattr (PModel ''SkillLevel''
        [(''topic'', PStr ''recursion''), (''level'', PEnum ''DifficultyLevel'' ''advanced''),
         (''confidence'', PFloat 1), (''last_assessed'', PDatetime (Datetime 2024 1 1 0 0 0 0 (Some 0)))]) ''confidence''
      = Some (PFloat x) \<and> 0 \<le> x \<and> x \<le> 1"
    using T [THEN conjunct2, THEN conjunct2, THEN conjunct2, THEN conjunct1, rule_format, OF k1] .
  have g2: "\<exists>x. getattr (PModel ''SearchResult''
        [(''document_id'', PStr ''doc1''), (''title'', PStr ''recursion''),
         (''content_snippet'', PStr ''text''), (''relevance_score'', PFloat 1),
         (''metadata'', PModel ''DocumentMetadata''
            [(''author'', PStr ''ann''), (''created_date'', PDatetime (Datetime 2024 1 1 0 0 0 0 (Some 0))),
             (''last_updated'', PDatetime (Datetime 2024 1 1 0 0 0 0 (Some 0))), (''version'', PStr ''1''),
             (''language'', PNone), (''framework'', PNone)])]) ''relevance_score''
      = Some (PFloat x) \<and> 0 \<le> x \<and> x \<le> 1"
    using T [THEN conjunct2, THEN conjunct2, THEN conjunct2, THEN conjunct2, THEN conjunct1, rule_format, OF k4] .
  have g3: "\<exists>x. getattr (PModel ''SkillAssessment''
        [(''user_id'', PStr ''doc1''), (''assessed_skills'', PDict []), (''confidence_score'', PFloat 0),
         (''assessment_date'', PDatetime (Datetime 2024 1 1 0 0 0 0 (Some 0))), (''assessment_method'', PStr ''quiz'')]) ''confidence_score''
      = Some (PFloat x) \<and> 0 \<le> x \<and> x \<le> 1"
    using T [THEN conjunct2, THEN conjunct2, THEN conjunct2, THEN conjunct2, THEN conjunct2, THEN conjunct1, rule_format, OF k5] .
  have r1: "\<exists>es. construct basic_lax SkillLevel [(''confidence'', VFloat 1.0001)] = Inl es \<and>
      \<lparr>loc = [Key ''confidence''], kind = less_than_equal (VFloat 1), input = VFloat 1.0001\<rparr>
        \<in> set es"
    using T [where kwargs = "[(''confidence'', VFloat 1.0001)]" and r = "1.0001", THEN conjunct2, THEN conjunct2, THEN conjunct2, THEN conjunct2, THEN conjunct2, THEN conjunct2, THEN conjunct1]
    by simp
  have r2: "\<exists>es. construct basic_lax SearchResult [(''relevance_score'', VFloat (- 0.0001))] = Inl es \<and>
      \<lparr>loc = [Key ''relevance_score''], kind = greater_than_equal (VFloat 0), input = VFloat (- 0.0001)\<rparr>
        \<in> set es"
    using T [where kwargs = "[(''relevance_score'', VFloat (- 0.0001))]" and r = "- 0.0001", THEN conjunct2, THEN conjunct2, THEN conjunct2, THEN conjunct2, THEN conjunct2, THEN conjunct2, THEN conjunct2, THEN conjunct1]
    by simp
  have r3: "\<exists>es. construct basic_lax SkillAssessment [(''confidence_score'', VFloat 1.0001)] = Inl es \<and>
      \<lparr>loc = [Key ''confidence_score''], kind = less_than_equal (VFloat 1), input = VFloat 1.0001\<rparr>
        \<in> set es"
    using T [where kwargs = "[(''confidence_score'', VFloat 1.0001)]" and r = "1.0001", THEN conjunct2, THEN conjunct2, THEN conjunct2, THEN conjunct2, THEN conjunct2, THEN conjunct2, THEN conjunct2, THEN conjunct2]
    by simp
  from k0 k1 k2 k3 k4 k5 g1 g2 g3 r1 r2 r3 show ?thesis
    by (intro conjI)
qed

text \<open>
  Claim C2, as amended. The rating fields of \<^verbatim>\<open>UserFeedback\<close> (\<^verbatim>\<open>rating\<close>,
  \<^verbatim>\<open>clarity_rating\<close>, \<^verbatim>\<open>accuracy_rating\<close>, each \<^verbatim>\<open>int = Field(ge=1, le=5)\<close>) accept an
  integer input exactly when it is one of 1, 2, 3, 4, 5. An input that is not an integer
  is not rejected as such: it is accepted exactly when the lax conversion to \<^verbatim>\<open>int\<close> turns
  it into an integer within \<open>[1, 5]\<close>, which is then stored, and rejected otherwise.
  Whatever the other arguments are, a rating input is accepted exactly when this
  validation of the field accepts it and the construction with 3 in its place succeeds;
  every instance holds integers within \<open>[1, 5]\<close> in the three fields.
\<close>

theorem rating_fields_one_to_five:
  "(construct P UserFeedback
      [(''rating'', VInt r), (''helpful'', VBool h), (''clarity_rating'', VInt c),
       (''accuracy_rating'', VInt a)] = Inr inst
    \<longleftrightarrow> (1 \<le> r \<and> r \<le> 5) \<and> (1 \<le> c \<and> c \<le> 5) \<and> (1 \<le> a \<and> a \<le> 5) \<and>
        inst = PModel ''UserFeedback''
          [(''rating'', PInt r), (''helpful'', PBool h), (''clarity_rating'', PInt c),
           (''accuracy_rating'', PInt a), (''comments'', PNone)])
   \<and>
   (validate_int P (Some 1) (Some 5) x = Inr n
    \<longleftrightarrow> 1 \<le> n \<and> n \<le> 5 \<and> (x = VInt n \<or> (\<forall>m. x \<noteq> VInt m) \<and> int_lax P x = Inr n))
   \<and>
   ((\<exists>inst. construct P UserFeedback ((''rating'', x) # kwargs) = Inr inst)
    \<longleftrightarrow> (\<exists>n. validate_int P (Some 1) (Some 5) x = Inr n) \<and>
        (\<exists>inst. construct P UserFeedback ((''rating'', VInt 3) # kwargs) = Inr inst))
   \<and>
   ((\<exists>inst. construct P UserFeedback ((''clarity_rating'', x) # kwargs) = Inr inst)
    \<longleftrightarrow> (\<exists>n. validate_int P (Some 1) (Some 5) x = Inr n) \<and>
        (\<exists>inst. construct P UserFeedback ((''clarity_rating'', VInt 3) # kwargs) = Inr inst))
   \<and>
   ((\<exists>inst. construct P UserFeedback ((''accuracy_rating'', x) # kwargs) = Inr inst)
    \<longleftrightarrow> (\<exists>n. validate_int P (Some 1) (Some 5) x = Inr n) \<and>
        (\<exists>inst. construct P UserFeedback ((''accuracy_rating'', VInt 3) # kwargs) = Inr inst))
   \<and>
   (construct P UserFeedback kwargs = Inr inst \<longrightarrow>
      (\<exists>r c a. getattr inst ''rating'' = Some (PInt r) \<and> 1 \<le> r \<and> r \<le> 5 \<and>
         getattr inst ''clarity_rating'' = Some (PInt c) \<and> 1 \<le> c \<and> c \<le> 5 \<and>
         getattr inst ''accuracy_rating'' = Some (PInt a) \<and> 1 \<le> a \<and> a \<le> 5))"
proof -
  have a: "construct P UserFeedback
      [(''rating'', VInt r), (''helpful'', VBool h), (''clarity_rating'', VInt c),
       (''accuracy_rating'', VInt a)] = Inr inst
    \<longleftrightarrow> (1 \<le> r \<and> r \<le> 5) \<and> (1 \<le> c \<and> c \<le> 5) \<and> (1 \<le> a \<and> a \<le> 5) \<and>
        inst = PModel ''UserFeedback''
          [(''rating'', PInt r), (''helpful'', PBool h), (''clarity_rating'', PInt c),
           (''accuracy_rating'', PInt a), (''comments'', PNone)]"
    by (auto simp add: construct_def UserFeedback_def scalar_defs collect_defs)
  have b: "validate_int P (Some 1) (Some 5) x = Inr n
    \<longleftrightarrow> 1 \<le> n \<and> n \<le> 5 \<and> (x = VInt n \<or> (\<forall>m. x \<noteq> VInt m) \<and> int_lax P x = Inr n)"
    by (cases x) (auto simp add: scalar_defs split: sum.splits)
  have ok: "(\<exists>p. validate_field P (TInt (Some 1) (Some 5)) x = Inr p)
      \<longleftrightarrow> (\<exists>n. validate_int P (Some 1) (Some 5) x = Inr n)"
    by (auto split: sum.splits)
  have ok3: "\<exists>p. validate_field P (TInt (Some 1) (Some 5)) (VInt 3) = Inr p"
    by (simp add: scalar_defs)
  have c1: "(\<exists>inst. construct P UserFeedback ((''rating'', x) # kwargs) = Inr inst)
    \<longleftrightarrow> (\<exists>n. validate_int P (Some 1) (Some 5) x = Inr n) \<and>
        (\<exists>inst. construct P UserFeedback ((''rating'', VInt 3) # kwargs) = Inr inst)"
    using ok ok3 by (auto simp add: UserFeedback_def construct_ok_iff field_value_def
        simp del: validate_field.simps split: option.splits)
  have c2: "(\<exists>inst. construct P UserFeedback ((''clarity_rating'', x) # kwargs) = Inr inst)
    \<longleftrightarrow> (\<exists>n. validate_int P (Some 1) (Some 5) x = Inr n) \<and>
        (\<exists>inst. construct P UserFeedback ((''clarity_rating'', VInt 3) # kwargs) = Inr inst)"
    using ok ok3 by (auto simp add: UserFeedback_def construct_ok_iff field_value_def
        simp del: validate_field.simps split: option.splits)
  have c3: "(\<exists>inst. construct P UserFeedback ((''accuracy_rating'', x) # kwargs) = Inr inst)
    \<longleftrightarrow> (\<exists>n. validate_int P (Some 1) (Some 5) x = Inr n) \<and>
        (\<exists>inst. construct P UserFeedback ((''accuracy_rating'', VInt 3) # kwargs) = Inr inst)"
    using ok ok3 by (auto simp add: UserFeedback_def construct_ok_iff field_value_def
        simp del: validate_field.simps split: option.splits)
  have d: "construct P UserFeedback kwargs = Inr inst \<longrightarrow>
      (\<exists>r c a. getattr inst ''rating'' = Some (PInt r) \<and> 1 \<le> r \<and> r \<le> 5 \<and>
         getattr inst ''clarity_rating'' = Some (PInt c) \<and> 1 \<le> c \<and> c \<le> 5 \<and>
         getattr inst ''accuracy_rating'' = Some (PInt a) \<and> 1 \<le> a \<and> a \<le> 5)"
  proof
    assume i: "construct P UserFeedback kwargs = Inr inst"
    have "\<exists>n. getattr inst ''rating'' = Some (PInt n) \<and> 1 \<le> n \<and> n \<le> 5"
      by (rule unit_int_getattr [OF UserFeedback_def i]) simp_all
    moreover have "\<exists>n. getattr inst ''clarity_rating'' = Some (PInt n) \<and> 1 \<le> n \<and> n \<le> 5"
      by (rule unit_int_getattr [OF UserFeedback_def i]) simp_all
    moreover have "\<exists>n. getattr inst ''accuracy_rating'' = Some (PInt n) \<and> 1 \<le> n \<and> n \<le> 5"
      by (rule unit_int_getattr [OF UserFeedback_def i]) simp_all
    ultimately show "\<exists>r c a. getattr inst ''rating'' = Some (PInt r) \<and> 1 \<le> r \<and> r \<le> 5 \<and>
         getattr inst ''clarity_rating'' = Some (PInt c) \<and> 1 \<le> c \<and> c \<le> 5 \<and>
         getattr inst ''accuracy_rating'' = Some (PInt a) \<and> 1 \<le> a \<and> a \<le> 5"
      by blast
  qed
  show ?thesis
    by (intro conjI; fact)
qed

text \<open>
  The claim as stated fails: the string \<^verbatim>\<open>"3"\<close> is not an integer, and
  \<^verbatim>\<open>UserFeedback(rating="3", helpful=True, clarity_rating=3, accuracy_rating=4)\<close> is
  accepted, with the rating 3.
\<close>

theorem rating_numeric_string_accepted:
  "construct basic_lax UserFeedback
     [(''rating'', VStr ''3''), (''helpful'', VBool True), (''clarity_rating'', VInt 3),
      (''accuracy_rating'', VInt 4)]
   = Inr (PModel ''UserFeedback''
       [(''rating'', PInt 3), (''helpful'', PBool True), (''clarity_rating'', PInt 3),
        (''accuracy_rating'', PInt 4), (''comments'', PNone)])"
  by (simp add: construct_def UserFeedback_def scalar_defs collect_defs basic_lax_def
      str_as_int_def digit_of_def)

theorem rating_fields_one_to_five_witness:
  "(\<exists>n. validate_int basic_lax (Some 1) (Some 5) (VStr ''3'') = Inr n \<and> 1 \<le> n \<and> n \<le> 5)
   \<and> (\<exists>inst. construct basic_lax UserFeedback
         [(''rating'', VStr ''3''), (''helpful'', VBool True), (''clarity_rating'', VInt 3),
          (''accuracy_rating'', VInt 4)] = Inr inst
        \<and> getattr inst ''rating'' = Some (PInt 3))
   \<and> (\<forall>inst. construct basic_lax UserFeedback
         [(''rating'', VStr ''7''), (''helpful'', VBool True), (''clarity_rating'', VInt 3),
          (''accuracy_rating'', VInt 4)] \<noteq> Inr inst)
   \<and> (\<forall>inst. construct basic_lax UserFeedback
         [(''rating'', VInt 0), (''helpful'', VBool True), (''clarity_rating'', VInt 3),
          (''accuracy_rating'', VInt 4)] \<noteq> Inr inst)"
proof -
  let ?rest = "[(''helpful'', VBool True), (''clarity_rating'', VInt 3), (''accuracy_rating'', VInt 4)]"
  note T0 = rating_fields_one_to_five [where P = basic_lax]
  note T = T0 [where kwargs = ?rest]
  have lax3: "int_lax basic_lax (VStr ''3'') = Inr 3" and lax7: "int_lax basic_lax (VStr ''7'') = Inr 7"
    by (simp_all add: basic_lax_def str_as_int_def digit_of_def)
  have v3: "validate_int basic_lax (Some 1) (Some 5) (VStr ''3'') = Inr 3"
    using T [where x = "VStr ''3''" and n = 3, THEN conjunct2, THEN conjunct1] lax3 by simp
  have base: "\<exists>inst. construct basic_lax UserFeedback ((''rating'', VInt 3) # ?rest) = Inr inst"
    using T [where r = 3 and c = 3 and a = 4 and h = True, THEN conjunct1] by simp
  have "\<exists>inst. construct basic_lax UserFeedback ((''rating'', VStr ''3'') # ?rest) = Inr inst"
    using T [where x = "VStr ''3''", THEN conjunct2, THEN conjunct2, THEN conjunct1] v3 base
    by blast
  then obtain inst where
    i: "construct basic_lax UserFeedback ((''rating'', VStr ''3'') # ?rest) = Inr inst" ..
  have inst: "inst = PModel ''UserFeedback''
       [(''rating'', PInt 3), (''helpful'', PBool True), (''clarity_rating'', PInt 3),
        (''accuracy_rating'', PInt 4), (''comments'', PNone)]"
    using i by (simp add: construct_def UserFeedback_def scalar_defs collect_defs basic_lax_def
      str_as_int_def digit_of_def)
  from T0 [where kwargs = "(''rating'', VStr ''3'') # ?rest" and inst = inst,
      THEN conjunct2, THEN conjunct2, THEN conjunct2, THEN conjunct2, THEN conjunct2,
      rule_format, OF i]
  obtain r where "getattr inst ''rating'' = Some (PInt r)" and "1 \<le> r" and "r \<le> 5"
    by blast
  then have g: "getattr inst ''rating'' = Some (PInt 3)"
    by (simp add: inst getattr_def)
  have n7: "\<forall>n. validate_int basic_lax (Some 1) (Some 5) (VStr ''7'') \<noteq> Inr n"
    using T [where x = "VStr ''7''", THEN conjunct2, THEN conjunct1] lax7 by auto
  have r7: "\<forall>inst. construct basic_lax UserFeedback ((''rating'', VStr ''7'') # ?rest) \<noteq> Inr inst"
    using T [where x = "VStr ''7''", THEN conjunct2, THEN conjunct2, THEN conjunct1] n7
    by blast
  have r0: "\<forall>inst. construct basic_lax UserFeedback ((''rating'', VInt 0) # ?rest) \<noteq> Inr inst"
    using T [where r = 0 and c = 3 and a = 4 and h = True, THEN conjunct1] by simp
  from v3 i g r7 r0 show ?thesis
    by (intro conjI) auto
qed

text \<open>
  Claim C3, as amended. The time-duration fields carry no range constraint:
  \<^verbatim>\<open>LearningResource.estimated_time\<close>, \<^verbatim>\<open>Milestone.estimated_time\<close> and
  \<^verbatim>\<open>ProgressMetrics.time_spent\<close> are plain \<^verbatim>\<open>int\<close> fields and
  \<^verbatim>\<open>LearningInteraction.processing_time\<close> is a plain \<^verbatim>\<open>float\<close> field. Every integer
  (respectively float), a negative one included, is accepted and stored unchanged; whatever
  the other arguments are, the construction with the duration \<open>n\<close> succeeds exactly when the
  one with the duration 0 does.
\<close>

theorem duration_fields_unconstrained:
  "construct P LearningResource
     [(''id'', VStr i), (''title'', VStr t), (''type'', VStr ty),
      (''difficulty_level'', VStr ''beginner''), (''estimated_time'', VInt n)]
   = Inr (PModel ''LearningResource''
       [(''id'', PStr i), (''title'', PStr t), (''type'', PStr ty), (''url'', PNone),
        (''content'', PNone), (''difficulty_level'', PEnum ''DifficultyLevel'' ''beginner''),
        (''estimated_time'', PInt n)])
   \<and>
   construct P Milestone
     [(''id'', VStr i), (''title'', VStr t), (''description'', VStr ds),
      (''estimated_time'', VInt n)]
   = Inr (PModel ''Milestone''
       [(''id'', PStr i), (''title'', PStr t), (''description'', PStr ds),
        (''required_skills'', PList []), (''completion_criteria'', PList []),
        (''estimated_time'', PInt n)])
   \<and>
   construct P LearningInteraction
     [(''id'', VStr i), (''user_id'', VStr u), (''type'', VStr ''code_analysis''),
      (''query'', VStr q), (''response'', VStr rs), (''timestamp'', VDatetime d),
      (''processing_time'', VFloat r)]
   = Inr (PModel ''LearningInteraction''
       [(''id'', PStr i), (''user_id'', PStr u),
        (''type'', PEnum ''InteractionType'' ''code_analysis''), (''query'', PStr q),
        (''response'', PStr rs), (''context_used'', PList []), (''feedback'', PNone),
        (''timestamp'', PDatetime d), (''processing_time'', PFloat r)])
   \<and>
   construct P ProgressMetrics [(''time_spent'', VInt n)]
   = Inr (PModel ''ProgressMetrics''
       [(''topics_covered'', PList []), (''time_spent'', PInt n), (''concepts_learned'', PInt 0),
        (''questions_asked'', PInt 0), (''feedback_given'', PInt 0),
        (''skill_improvements'', PList [])])
   \<and>
   ((\<exists>inst. construct P LearningResource ((''estimated_time'', VInt n) # kwargs) = Inr inst)
      = (\<exists>inst. construct P LearningResource ((''estimated_time'', VInt 0) # kwargs) = Inr inst))
   \<and>
   ((\<exists>inst. construct P Milestone ((''estimated_time'', VInt n) # kwargs) = Inr inst)
      = (\<exists>inst. construct P Milestone ((''estimated_time'', VInt 0) # kwargs) = Inr inst))
   \<and>
   ((\<exists>inst. construct P LearningInteraction ((''processing_time'', VFloat r) # kwargs) = Inr inst)
      = (\<exists>inst. construct P LearningInteraction ((''processing_time'', VFloat 0) # kwargs) = Inr inst))
   \<and>
   ((\<exists>inst. construct P ProgressMetrics ((''time_spent'', VInt n) # kwargs) = Inr inst)
      = (\<exists>inst. construct P ProgressMetrics ((''time_spent'', VInt 0) # kwargs) = Inr inst))"
proof -
  have a1: "construct P LearningResource
     [(''id'', VStr i), (''title'', VStr t), (''type'', VStr ty),
      (''difficulty_level'', VStr ''beginner''), (''estimated_time'', VInt n)]
   = Inr (PModel ''LearningResource''
       [(''id'', PStr i), (''title'', PStr t), (''type'', PStr ty), (''url'', PNone),
        (''content'', PNone), (''difficulty_level'', PEnum ''DifficultyLevel'' ''beginner''),
        (''estimated_time'', PInt n)])"
    by (simp add: construct_def LearningResource_def DifficultyLevel_def scalar_defs collect_defs)
  have a2: "construct P Milestone
     [(''id'', VStr i), (''title'', VStr t), (''description'', VStr ds),
      (''estimated_time'', VInt n)]
   = Inr (PModel ''Milestone''
       [(''id'', PStr i), (''title'', PStr t), (''description'', PStr ds),
        (''required_skills'', PList []), (''completion_criteria'', PList []),
        (''estimated_time'', PInt n)])"
    by (simp add: construct_def Milestone_def scalar_defs collect_defs)
  have a3: "construct P LearningInteraction
     [(''id'', VStr i), (''user_id'', VStr u), (''type'', VStr ''code_analysis''),
      (''query'', VStr q), (''response'', VStr rs), (''timestamp'', VDatetime d),
      (''processing_time'', VFloat r)]
   = Inr (PModel ''LearningInteraction''
       [(''id'', PStr i), (''user_id'', PStr u),
        (''type'', PEnum ''InteractionType'' ''code_analysis''), (''query'', PStr q),
        (''response'', PStr rs), (''context_used'', PList []), (''feedback'', PNone),
        (''timestamp'', PDatetime d), (''processing_time'', PFloat r)])"
    by (simp add: construct_def LearningInteraction_def InteractionType_def scalar_defs
        collect_defs)
  have a4: "construct P ProgressMetrics [(''time_spent'', VInt n)]
   = Inr (PModel ''ProgressMetrics''
       [(''topics_covered'', PList []), (''time_spent'', PInt n), (''concepts_learned'', PInt 0),
        (''questions_asked'', PInt 0), (''feedback_given'', PInt 0),
        (''skill_improvements'', PList [])])"
    by (simp add: construct_def ProgressMetrics_def scalar_defs collect_defs)
  have b1: "(\<exists>inst. construct P LearningResource ((''estimated_time'', VInt n) # kwargs) = Inr inst)
      = (\<exists>inst. construct P LearningResource ((''estimated_time'', VInt 0) # kwargs) = Inr inst)"
    by (simp add: LearningResource_def construct_ok_iff field_value_def scalar_defs
        split: option.splits)
  have b2: "(\<exists>inst. construct P Milestone ((''estimated_time'', VInt n) # kwargs) = Inr inst)
      = (\<exists>inst. construct P Milestone ((''estimated_time'', VInt 0) # kwargs) = Inr inst)"
    by (simp add: Milestone_def construct_ok_iff field_value_def scalar_defs
        split: option.splits)
  have b3: "(\<exists>inst. construct P LearningInteraction ((''processing_time'', VFloat r) # kwargs) = Inr inst)
      = (\<exists>inst. construct P LearningInteraction ((''processing_time'', VFloat 0) # kwargs) = Inr inst)"
    by (simp add: LearningInteraction_def construct_ok_iff field_value_def scalar_defs
        split: option.splits)
  have b4: "(\<exists>inst. construct P ProgressMetrics ((''time_spent'', VInt n) # kwargs) = Inr inst)
      = (\<exists>inst. construct P ProgressMetrics ((''time_spent'', VInt 0) # kwargs) = Inr inst)"
    by (simp add: ProgressMetrics_def construct_ok_iff field_value_def scalar_defs
        split: option.splits)
  show ?thesis
    by (intro conjI; fact)
qed

text \<open>
  The claim as stated fails: a \<^verbatim>\<open>LearningResource\<close> with \<^verbatim>\<open>estimated_time=-5\<close> is accepted.
\<close>

theorem negative_estimated_time_accepted:
  "construct basic_lax LearningResource
     [(''id'', VStr ''r1''), (''title'', VStr ''Loops''), (''type'', VStr ''article''),
      (''difficulty_level'', VStr ''beginner''), (''estimated_time'', VInt (- 5))]
   = Inr (PModel ''LearningResource''
       [(''id'', PStr ''r1''), (''title'', PStr ''Loops''), (''type'', PStr ''article''),
        (''url'', PNone), (''content'', PNone),
        (''difficulty_level'', PEnum ''DifficultyLevel'' ''beginner''),
        (''estimated_time'', PInt (- 5))])"
  by (simp add: construct_def LearningResource_def DifficultyLevel_def scalar_defs collect_defs)

text \<open>
  Claim C4. The comment on \<^verbatim>\<open>ExpertiseLevel.domain_expertise\<close> gives the range of an
  expertise score as 0-1, but the annotation is \<^verbatim>\<open>Dict[str, float]\<close> without bounds: a score
  outside the range, such as 1.5, is accepted and stored, where the bounded fields
  (\<^verbatim>\<open>SkillLevel.confidence\<close>) reject it. For every float \<open>r\<close> the construction succeeds.
\<close>

theorem expertise_score_not_checked:
  "construct P ExpertiseLevel
     [(''overall_level'', VStr ''beginner''), (''domain_expertise'', VDict [(''python'', VFloat 1.5)])]
   = Inr (PModel ''ExpertiseLevel''
       [(''overall_level'', PEnum ''DifficultyLevel'' ''beginner''),
        (''domain_expertise'', PDict [(''python'', PFloat 1.5)])])
   \<and>
   construct P ExpertiseLevel
     [(''overall_level'', VStr ''beginner''), (''domain_expertise'', VDict [(k, VFloat r)])]
   = Inr (PModel ''ExpertiseLevel''
       [(''overall_level'', PEnum ''DifficultyLevel'' ''beginner''),
        (''domain_expertise'', PDict [(k, PFloat r)])])"
  by (simp add: construct_def ExpertiseLevel_def DifficultyLevel_def scalar_defs collect_defs)

text \<open>
  Claim C5. A field annotated with one of the enumerations \<^verbatim>\<open>DifficultyLevel\<close>,
  \<^verbatim>\<open>ExplanationStyle\<close>, \<^verbatim>\<open>InteractionType\<close>, \<^verbatim>\<open>DocumentType\<close>, \<^verbatim>\<open>IssueType\<close>,
  \<^verbatim>\<open>IssueSeverity\<close> accepts an input exactly when it is a string equal, character for
  character, to one of the declared literals, and then holds the member of that value.
  At the level of a class, for arbitrary keyword arguments: a string that is not a declared
  literal (such as \<^verbatim>\<open>"expert"\<close> for \<^verbatim>\<open>SkillLevel.level\<close>) makes the construction fail with a
  violation located at that field, carrying the permitted literals and the received
  string. No default is substituted, also where the field declares one
  (\<^verbatim>\<open>UserPreferences.explanation_style\<close>).
\<close>

theorem enum_fields_exact_literals:
  "(validate_field P DifficultyLevel v = Inr p
    \<longleftrightarrow> (\<exists>s. v = VStr s \<and> s \<in> {''beginner'', ''intermediate'', ''advanced''} \<and> p = PEnum ''DifficultyLevel'' s))
   \<and>
   (validate_field P ExplanationStyle v = Inr p
    \<longleftrightarrow> (\<exists>s. v = VStr s \<and> s \<in> {''detailed'', ''concise'', ''example-heavy''} \<and> p = PEnum ''ExplanationStyle'' s))
   \<and>
   (validate_field P InteractionType v = Inr p
    \<longleftrightarrow> (\<exists>s. v = VStr s \<and> s \<in> {''concept_explanation'', ''code_analysis'', ''debugging_help''} \<and> p = PEnum ''InteractionType'' s))
   \<and>
   (validate_field P DocumentType v = Inr p
    \<longleftrightarrow> (\<exists>s. v = VStr s \<and> s \<in> {''tutorial'', ''documentation'', ''example'', ''reference''} \<and> p = PEnum ''DocumentType'' s))
   \<and>
   (validate_field P IssueType v = Inr p
    \<longleftrightarrow> (\<exists>s. v = VStr s \<and> s \<in> {''error'', ''warning'', ''suggestion''} \<and> p = PEnum ''IssueType'' s))
   \<and>
   (validate_field P IssueSeverity v = Inr p
    \<longleftrightarrow> (\<exists>s. v = VStr s \<and> s \<in> {''low'', ''medium'', ''high''} \<and> p = PEnum ''IssueSeverity'' s))
   \<and>
   (map_of kwargs ''level'' = Some (VStr s) \<and> s \<notin> {''beginner'', ''intermediate'', ''advanced''} \<longrightarrow>
      (\<exists>es. construct P SkillLevel kwargs = Inl es \<and>
         \<lparr>loc = [Key ''level''], kind = enum [''beginner'', ''intermediate'', ''advanced''], input = VStr s\<rparr> \<in> set es))
   \<and>
   (map_of kwargs ''explanation_style'' = Some (VStr s) \<and> s \<notin> {''detailed'', ''concise'', ''example-heavy''} \<longrightarrow>
      (\<exists>es. construct P UserPreferences kwargs = Inl es \<and>
         \<lparr>loc = [Key ''explanation_style''], kind = enum [''detailed'', ''concise'', ''example-heavy''], input = VStr s\<rparr> \<in> set es))
   \<and>
   (map_of kwargs ''type'' = Some (VStr s) \<and> s \<notin> {''concept_explanation'', ''code_analysis'', ''debugging_help''} \<longrightarrow>
      (\<exists>es. construct P LearningInteraction kwargs = Inl es \<and>
         \<lparr>loc = [Key ''type''], kind = enum [''concept_explanation'', ''code_analysis'', ''debugging_help''], input = VStr s\<rparr> \<in> set es))
   \<and>
   (map_of kwargs ''document_type'' = Some (VStr s) \<and> s \<notin> {''tutorial'', ''documentation'', ''example'', ''reference''} \<longrightarrow>
      (\<exists>es. construct P KnowledgeDocument kwargs = Inl es \<and>
         \<lparr>loc = [Key ''document_type''], kind = enum [''tutorial'', ''documentation'', ''example'', ''reference''], input = VStr s\<rparr> \<in> set es))
   \<and>
   (map_of kwargs ''type'' = Some (VStr s) \<and> s \<notin> {''error'', ''warning'', ''suggestion''} \<longrightarrow>
      (\<exists>es. construct P Issue kwargs = Inl es \<and>
         \<lparr>loc = [Key ''type''], kind = enum [''error'', ''warning'', ''suggestion''], input = VStr s\<rparr> \<in> set es))
   \<and>
   (map_of kwargs ''severity'' = Some (VStr s) \<and> s \<notin> {''low'', ''medium'', ''high''} \<longrightarrow>
      (\<exists>es. construct P Issue kwargs = Inl es \<and>
         \<lparr>loc = [Key ''severity''], kind = enum [''low'', ''medium'', ''high''], input = VStr s\<rparr> \<in> set es))"
proof -
  have a1: "validate_field P DifficultyLevel v = Inr p
    \<longleftrightarrow> (\<exists>s. v = VStr s \<and> s \<in> {''beginner'', ''intermediate'', ''advanced''} \<and> p = PEnum ''DifficultyLevel'' s)"
    by (simp add: DifficultyLevel_def validate_enum_iff del: validate_field.simps)
  have a2: "validate_field P ExplanationStyle v = Inr p
    \<longleftrightarrow> (\<exists>s. v = VStr s \<and> s \<in> {''detailed'', ''concise'', ''example-heavy''} \<and> p = PEnum ''ExplanationStyle'' s)"
    by (simp add: ExplanationStyle_def validate_enum_iff del: validate_field.simps)
  have a3: "validate_field P InteractionType v = Inr p
    \<longleftrightarrow> (\<exists>s. v = VStr s \<and> s \<in> {''concept_explanation'', ''code_analysis'', ''debugging_help''} \<and> p = PEnum ''InteractionType'' s)"
    by (simp add: InteractionType_def validate_enum_iff del: validate_field.simps)
  have a4: "validate_field P DocumentType v = Inr p
    \<longleftrightarrow> (\<exists>s. v = VStr s \<and> s \<in> {''tutorial'', ''documentation'', ''example'', ''reference''} \<and> p = PEnum ''DocumentType'' s)"
    by (simp add: DocumentType_def validate_enum_iff del: validate_field.simps)
  have a5: "validate_field P IssueType v = Inr p
    \<longleftrightarrow> (\<exists>s. v = VStr s \<and> s \<in> {''error'', ''warning'', ''suggestion''} \<and> p = PEnum ''IssueType'' s)"
    by (simp add: IssueType_def validate_enum_iff del: validate_field.simps)
  have a6: "validate_field P IssueSeverity v = Inr p
    \<longleftrightarrow> (\<exists>s. v = VStr s \<and> s \<in> {''low'', ''medium'', ''high''} \<and> p = PEnum ''IssueSeverity'' s)"
    by (simp add: IssueSeverity_def validate_enum_iff del: validate_field.simps)
  have b1: "map_of kwargs ''level'' = Some (VStr s) \<and> s \<notin> {''beginner'', ''intermediate'', ''advanced''} \<longrightarrow>
      (\<exists>es. construct P SkillLevel kwargs = Inl es \<and>
         \<lparr>loc = [Key ''level''], kind = enum [''beginner'', ''intermediate'', ''advanced''], input = VStr s\<rparr> \<in> set es)"
  proof (intro impI, elim conjE)
    assume m: "map_of kwargs ''level'' = Some (VStr s)" and n: "s \<notin> {''beginner'', ''intermediate'', ''advanced''}"
    from n have n': "s \<notin> set [''beginner'', ''intermediate'', ''advanced'']" by simp
    show "\<exists>es. construct P SkillLevel kwargs = Inl es \<and>
         \<lparr>loc = [Key ''level''], kind = enum [''beginner'', ''intermediate'', ''advanced''], input = VStr s\<rparr> \<in> set es"
      by (rule enum_field_reject [OF SkillLevel_def _ m n']) (simp add: DifficultyLevel_def)
  qed
  have b2: "map_of kwargs ''explanation_style'' = Some (VStr s) \<and> s \<notin> {''detailed'', ''concise'', ''example-heavy''} \<longrightarrow>
      (\<exists>es. construct P UserPreferences kwargs = Inl es \<and>
         \<lparr>loc = [Key ''explanation_style''], kind = enum [''detailed'', ''concise'', ''example-heavy''], input = VStr s\<rparr> \<in> set es)"
  proof (intro impI, elim conjE)
    assume m: "map_of kwargs ''explanation_style'' = Some (VStr s)" and n: "s \<notin> {''detailed'', ''concise'', ''example-heavy''}"
    from n have n': "s \<notin> set [''detailed'', ''concise'', ''example-heavy'']" by simp
    show "\<exists>es. construct P UserPreferences kwargs = Inl es \<and>
         \<lparr>loc = [Key ''explanation_style''], kind = enum [''detailed'', ''concise'', ''example-heavy''], input = VStr s\<rparr> \<in> set es"
      by (rule enum_field_reject [OF UserPreferences_def _ m n']) (simp add: ExplanationStyle_def)
  qed
  have b3: "map_of kwargs ''type'' = Some (VStr s) \<and> s \<notin> {''concept_explanation'', ''code_analysis'', ''debugging_help''} \<longrightarrow>
      (\<exists>es. construct P LearningInteraction kwargs = Inl es \<and>
         \<lparr>loc = [Key ''type''], kind = enum [''concept_explanation'', ''code_analysis'', ''debugging_help''], input = VStr s\<rparr> \<in> set es)"
  proof (intro impI, elim conjE)
    assume m: "map_of kwargs ''type'' = Some (VStr s)" and n: "s \<notin> {''concept_explanation'', ''code_analysis'', ''debugging_help''}"
    from n have n': "s \<notin> set [''concept_explanation'', ''code_analysis'', ''debugging_help'']" by simp
    show "\<exists>es. construct P LearningInteraction kwargs = Inl es \<and>
         \<lparr>loc = [Key ''type''], kind = enum [''concept_explanation'', ''code_analysis'', ''debugging_help''], input = VStr s\<rparr> \<in> set es"
      by (rule enum_field_reject [OF LearningInteraction_def _ m n']) (simp add: InteractionType_def)
  qed
  have b4: "map_of kwargs ''document_type'' = Some (VStr s) \<and> s \<notin> {''tutorial'', ''documentation'', ''example'', ''reference''} \<longrightarrow>
      (\<exists>es. construct P KnowledgeDocument kwargs = Inl es \<and>
         \<lparr>loc = [Key ''document_type''], kind = enum [''tutorial'', ''documentation'', ''example'', ''reference''], input = VStr s\<rparr> \<in> set es)"
  proof (intro impI, elim conjE)
    assume m: "map_of kwargs ''document_type'' = Some (VStr s)" and n: "s \<notin> {''tutorial'', ''documentation'', ''example'', ''reference''}"
    from n have n': "s \<notin> set [''tutorial'', ''documentation'', ''example'', ''reference'']" by simp
    show "\<exists>es. construct P KnowledgeDocument kwargs = Inl es \<and>
         \<lparr>loc = [Key ''document_type''], kind = enum [''tutorial'', ''documentation'', ''example'', ''reference''], input = VStr s\<rparr> \<in> set es"
      by (rule enum_field_reject [OF KnowledgeDocument_def _ m n']) (simp add: DocumentType_def)
  qed
  have b5: "map_of kwargs ''type'' = Some (VStr s) \<and> s \<notin> {''error'', ''warning'', ''suggestion''} \<longrightarrow>
      (\<exists>es. construct P Issue kwargs = Inl es \<and>
         \<lparr>loc = [Key ''type''], kind = enum [''error'', ''warning'', ''suggestion''], input = VStr s\<rparr> \<in> set es)"
  proof (intro impI, elim conjE)
    assume m: "map_of kwargs ''type'' = Some (VStr s)" and n: "s \<notin> {''error'', ''warning'', ''suggestion''}"
    from n have n': "s \<notin> set [''error'', ''warning'', ''suggestion'']" by simp
    show "\<exists>es. construct P Issue kwargs = Inl es \<and>
         \<lparr>loc = [Key ''type''], kind = enum [''error'', ''warning'', ''suggestion''], input = VStr s\<rparr> \<in> set es"
      by (rule enum_field_reject [OF Issue_def _ m n']) (simp add: IssueType_def)
  qed
  have b6: "map_of kwargs ''severity'' = Some (VStr s) \<and> s \<notin> {''low'', ''medium'', ''high''} \<longrightarrow>
      (\<exists>es. construct P Issue kwargs = Inl es \<and>
         \<lparr>loc = [Key ''severity''], kind = enum [''low'', ''medium'', ''high''], input = VStr s\<rparr> \<in> set es)"
  proof (intro impI, elim conjE)
    assume m: "map_of kwargs ''severity'' = Some (VStr s)" and n: "s \<notin> {''low'', ''medium'', ''high''}"
    from n have n': "s \<notin> set [''low'', ''medium'', ''high'']" by simp
    show "\<exists>es. construct P Issue kwargs = Inl es \<and>
         \<lparr>loc = [Key ''severity''], kind = enum [''low'', ''medium'', ''high''], input = VStr s\<rparr> \<in> set es"
      by (rule enum_field_reject [OF Issue_def _ m n']) (simp add: IssueSeverity_def)
  qed
  show ?thesis
    by (intro conjI; fact)
qed

theorem enum_fields_exact_literals_witness:
  "(\<exists>p. validate_field basic_lax DifficultyLevel (VStr ''advanced'') = Inr p)
   \<and> (\<forall>p. validate_field basic_lax DifficultyLevel (VStr ''Advanced'') \<noteq> Inr p)
   \<and> (\<forall>p. validate_field basic_lax DifficultyLevel (VStr ''expert'') \<noteq> Inr p)
   \<and> (\<exists>es. construct basic_lax SkillLevel
          [(''topic'', VStr ''recursion''), (''level'', VStr ''expert''), (''confidence'', VFloat 0.85),
           (''last_assessed'', VDatetime (Datetime 2024 1 1 0 0 0 0 (Some 0)))] = Inl es
        \<and> \<lparr>loc = [Key ''level''], kind = enum [''beginner'', ''intermediate'', ''advanced''],
             input = VStr ''expert''\<rparr> \<in> set es)
   \<and> (\<exists>es. construct basic_lax UserPreferences [(''explanation_style'', VStr ''verbose'')] = Inl es
        \<and> \<lparr>loc = [Key ''explanation_style''],
             kind = enum [''detailed'', ''concise'', ''example-heavy''],
             input = VStr ''verbose''\<rparr> \<in> set es)
   \<and> (\<exists>es. construct basic_lax LearningInteraction [(''type'', VStr ''chat'')] = Inl es
        \<and> \<lparr>loc = [Key ''type''], kind = enum [''concept_explanation'', ''code_analysis'', ''debugging_help''],
             input = VStr ''chat''\<rparr> \<in> set es)
   \<and> (\<exists>es. construct basic_lax KnowledgeDocument [(''document_type'', VStr ''blog'')] = Inl es
        \<and> \<lparr>loc = [Key ''document_type''], kind = enum [''tutorial'', ''documentation'', ''example'', ''reference''],
             input = VStr ''blog''\<rparr> \<in> set es)
   \<and> (\<exists>es. construct basic_lax Issue [(''type'', VStr ''info'')] = Inl es
        \<and> \<lparr>loc = [Key ''type''], kind = enum [''error'', ''warning'', ''suggestion''],
             input = VStr ''info''\<rparr> \<in> set es)
   \<and> (\<exists>es. construct basic_lax Issue [(''severity'', VStr ''critical'')] = Inl es
        \<and> \<lparr>loc = [Key ''severity''], kind = enum [''low'', ''medium'', ''high''],
             input = VStr ''critical''\<rparr> \<in> set es)"
proof -
  note T = enum_fields_exact_literals [where P = basic_lax]
  have w1: "\<exists>p. validate_field basic_lax DifficultyLevel (VStr ''advanced'') = Inr p"
    using T [where v = "VStr ''advanced''" and p = "PEnum ''DifficultyLevel'' ''advanced''",
        THEN conjunct1] by simp
  have w2: "\<forall>p. validate_field basic_lax DifficultyLevel (VStr ''Advanced'') \<noteq> Inr p"
    using T [where v = "VStr ''Advanced''", THEN conjunct1] by simp
  have w3: "\<forall>p. validate_field basic_lax DifficultyLevel (VStr ''expert'') \<noteq> Inr p"
    using T [where v = "VStr ''expert''", THEN conjunct1] by simp
  have w4: "\<exists>es. construct basic_lax SkillLevel
          [(''topic'', VStr ''recursion''), (''level'', VStr ''expert''), (''confidence'', VFloat 0.85),
           (''last_assessed'', VDatetime (Datetime 2024 1 1 0 0 0 0 (Some 0)))] = Inl es
        \<and> \<lparr>loc = [Key ''level''], kind = enum [''beginner'', ''intermediate'', ''advanced''],
             input = VStr ''expert''\<rparr> \<in> set es"
    using T [where s = "''expert''" and kwargs = "[(''topic'', VStr ''recursion''),
           (''level'', VStr ''expert''), (''confidence'', VFloat 0.85),
           (''last_assessed'', VDatetime (Datetime 2024 1 1 0 0 0 0 (Some 0)))]",
        THEN conjunct2, THEN conjunct2, THEN conjunct2, THEN conjunct2, THEN conjunct2,
        THEN conjunct2, THEN conjunct1]
    by simp
  have w5: "\<exists>es. construct basic_lax UserPreferences [(''explanation_style'', VStr ''verbose'')] = Inl es
        \<and> \<lparr>loc = [Key ''explanation_style''],
             kind = enum [''detailed'', ''concise'', ''example-heavy''],
             input = VStr ''verbose''\<rparr> \<in> set es"
    using T [where s = "''verbose''" and kwargs = "[(''explanation_style'', VStr ''verbose'')]",
        THEN conjunct2, THEN conjunct2, THEN conjunct2, THEN conjunct2, THEN conjunct2,
        THEN conjunct2, THEN conjunct2, THEN conjunct1]
    by simp
  have w6: "\<exists>es. construct basic_lax LearningInteraction [(''type'', VStr ''chat'')] = Inl es
        \<and> \<lparr>loc = [Key ''type''], kind = enum [''concept_explanation'', ''code_analysis'', ''debugging_help''],
             input = VStr ''chat''\<rparr> \<in> set es"
    using T [where s = "''chat''" and kwargs = "[(''type'', VStr ''chat'')]",
        THEN conjunct2, THEN conjunct2, THEN conjunct2, THEN conjunct2, THEN conjunct2, THEN conjunct2, THEN conjunct2, THEN conjunct2, THEN conjunct1]
    by simp
  have w7: "\<exists>es. construct basic_lax KnowledgeDocument [(''document_type'', VStr ''blog'')] = Inl es
        \<and> \<lparr>loc = [Key ''document_type''], kind = enum [''tutorial'', ''documentation'', ''example'', ''reference''],
             input = VStr ''blog''\<rparr> \<in> set es"
    using T [where s = "''blog''" and kwargs = "[(''document_type'', VStr ''blog'')]",
        THEN conjunct2, THEN conjunct2, THEN conjunct2, THEN conjunct2, THEN conjunct2, THEN conjunct2, THEN conjunct2, THEN conjunct2, THEN conjunct2, THEN conjunct1]
    by simp
  have w8: "\<exists>es. construct basic_lax Issue [(''type'', VStr ''info'')] = Inl es
        \<and> \<lparr>loc = [Key ''type''], kind = enum [''error'', ''warning'', ''suggestion''],
             input = VStr ''info''\<rparr> \<in> set es"
    using T [where s = "''info''" and kwargs = "[(''type'', VStr ''info'')]",
        THEN conjunct2, THEN conjunct2, THEN conjunct2, THEN conjunct2, THEN conjunct2, THEN conjunct2, THEN conjunct2, THEN conjunct2, THEN conjunct2, THEN conjunct2, THEN conjunct1]
    by simp
  have w9: "\<exists>es. construct basic_lax Issue [(''severity'', VStr ''critical'')] = Inl es
        \<and> \<lparr>loc = [Key ''severity''], kind = enum [''low'', ''medium'', ''high''],
             input = VStr ''critical''\<rparr> \<in> set es"
    using T [where s = "''critical''" and kwargs = "[(''severity'', VStr ''critical'')]",
        THEN conjunct2, THEN conjunct2, THEN conjunct2, THEN conjunct2, THEN conjunct2, THEN conjunct2, THEN conjunct2, THEN conjunct2, THEN conjunct2, THEN conjunct2, THEN conjunct2]
    by simp
  from w1 w2 w3 w4 w5 w6 w7 w8 w9 show ?thesis
    by (intro conjI)
qed




end
